theory Spec2Isabelle
  imports Main
begin

section \<open>Python values, strings and exceptions\<close>

text \<open>
  The event payload is a \<^verbatim>\<open>Dict[str, Any]\<close> decoded from JSON: its values are not
  only strings. Bucket and object names, which the code only compares and cuts at
  \<^verbatim>\<open>/\<close>, are modelled as \<^typ>\<open>string\<close>. The content of an object, whose characters the
  code classifies (\<^verbatim>\<open>strip\<close>), is the list of its Unicode code points.
\<close>

datatype pyval =
    PNone
  | PBool bool
  | PInt int
  | PStr string
  | PList "pyval list"
  | PDict "(string \<times> pyval) list"

datatype pyexn = TypeError | AttributeError | ValueError | ServiceError string

text \<open>\<^verbatim>\<open>data.get(key, default)\<close>\<close>

definition dict_get :: "(string \<rightharpoonup> pyval) \<Rightarrow> string \<Rightarrow> pyval \<Rightarrow> pyval" where
  "dict_get d k dflt = (case d k of None \<Rightarrow> dflt | Some v \<Rightarrow> v)"

type_synonym unicode = "nat list"

text \<open>\<^verbatim>\<open>s.split(sep)\<close> for a one-character separator: one piece more than separators.\<close>

fun split :: "'a \<Rightarrow> 'a list \<Rightarrow> 'a list list" where
  "split sep [] = [[]]"
| "split sep (x # xs) =
     (if x = sep then [] # split sep xs
      else (case split sep xs of
              [] \<Rightarrow> [[x]]
            | piece # pieces \<Rightarrow> (x # piece) # pieces))"

text \<open>
  \<^verbatim>\<open>s.rsplit(sep, 1)\<close> for a one-character separator: the text before the last
  separator and the text after it, or the whole string alone when there is no separator.
\<close>

definition rsplit1 :: "char \<Rightarrow> string \<Rightarrow> string list" where
  "rsplit1 sep s =
     (if sep \<in> set s
      then [rev (tl (dropWhile (\<lambda>x. x \<noteq> sep) (rev s))),
            rev (takeWhile (\<lambda>x. x \<noteq> sep) (rev s))]
      else [s])"

text \<open>
  The code points that \<^verbatim>\<open>str.strip()\<close> removes, those of \<^verbatim>\<open>str.isspace\<close>: tab, line feed,
  vertical tab, form feed, carriage return (9 to 13), the separators 28 to 31, space
  (32), next line (0x85), no-break space (0xA0), ogham space mark (0x1680), en quad to
  hair space (0x2000 to 0x200A), line and paragraph separator (0x2028, 0x2029), narrow
  no-break space (0x202F), medium mathematical space (0x205F) and ideographic space
  (0x3000).
\<close>

definition isspace :: "nat \<Rightarrow> bool" where
  "isspace c =
     (c \<in> {9, 10, 11, 12, 13, 28, 29, 30, 31, 32, 0x85, 0xA0, 0x1680,
            0x2000, 0x2001, 0x2002, 0x2003, 0x2004, 0x2005, 0x2006, 0x2007, 0x2008, 0x2009, 0x200A,
            0x2028, 0x2029, 0x202F, 0x205F, 0x3000})"

text \<open>\<^verbatim>\<open>s.strip()\<close>\<close>

definition strip :: "unicode \<Rightarrow> unicode" where
  "strip s = rev (dropWhile isspace (rev (dropWhile isspace s)))"

text \<open>The separator of line 59, \<^verbatim>\<open>'\\n'\<close>: the line feed.\<close>

definition newline :: nat where
  "newline = 10"

text \<open>
  Python's \<^verbatim>\<open>or\<close> on \<^verbatim>\<open>Optional[str]\<close> operands: the left operand when it is truthy
  (neither \<^verbatim>\<open>None\<close> nor the empty string), the right operand otherwise.
\<close>

definition truthy :: "string option \<Rightarrow> bool" where
  "truthy a = (case a of None \<Rightarrow> False | Some x \<Rightarrow> x \<noteq> [])"

definition py_or :: "string option \<Rightarrow> string option \<Rightarrow> string option" where
  "py_or a b = (if truthy a then a else b)"

text \<open>The same with a right operand that is a \<^verbatim>\<open>str\<close>, so that the result is one.\<close>

definition py_or_str :: "string option \<Rightarrow> string \<Rightarrow> string" where
  "py_or_str a b = (case a of None \<Rightarrow> b | Some x \<Rightarrow> if x \<noteq> [] then x else b)"

section \<open>The storage library as an environment\<close>

text \<open>
  Every call that the source makes into \<^verbatim>\<open>google.cloud.storage\<close>. Handles are
  identified by the names they were built from.
\<close>

datatype call =
    Client_new
  | Client_bucket string
  | Bucket_blob string string
  | Blob_open_read string string string
  | Bucket_copy_blob string string string string
  | Blob_delete string string

text \<open>
  The library answers a call in a state of the service with an exception or a value
  (the text read, for \<open>Blob_open_read\<close>; ignored otherwise) and the next state.
\<close>

type_synonym 's service = "call \<Rightarrow> 's \<Rightarrow> (pyexn + unicode) \<times> 's"

datatype level = DEBUG | INFO | WARNING | ERROR

datatype message =
    Function_Invoked
  | Function_Complete
  | Received_Event pyval pyval
  | Ignoring_Bucket pyval
  | Folder_Path_Check string
  | Ignoring_Blob pyval
  | Validated_File string string
  | Read_Bytes nat
  | Raw_Data_Sample "unicode list"
  | Failed_To_Move_To string
  | Failed_To_Retrieve
  | Finished_Handling
  | Client_Initialized
  | Validating_Names string "string option" "string option"
  | Names_Missing string
  | Blob_Reference_Error string string pyexn
  | Reference_Created string string
  | Skipping_Content_Read
  | Reading_Content string string
  | Read_Success
  | Read_Failed string pyexn
  | Same_Location
  | Moving string string string string
  | Copy_Completed
  | Move_Successful
  | Move_Failed pyexn

text \<open>
  What an invocation does, in order: the library calls with their replies, and the
  lines handed to the logger.
\<close>

datatype event = Call call "pyexn + unicode" | Log level message

definition invoke :: "'s service \<Rightarrow> call \<Rightarrow> 's \<Rightarrow> (pyexn + unicode) \<times> 's \<times> event list" where
  "invoke srv c s = (case srv c s of (r, s') \<Rightarrow> (r, s', [Call c r]))"

fun calls_of :: "event list \<Rightarrow> call list" where
  "calls_of [] = []"
| "calls_of (Call c r # evs) = c # calls_of evs"
| "calls_of (Log l m # evs) = calls_of evs"

fun is_mutation :: "call \<Rightarrow> bool" where
  "is_mutation (Bucket_copy_blob sb sn tb tn) = True"
| "is_mutation (Blob_delete b n) = True"
| "is_mutation c = False"

text \<open>The exceptions with which the library answered, in order.\<close>

fun errors_of :: "event list \<Rightarrow> pyexn list" where
  "errors_of [] = []"
| "errors_of (Call c (Inl e) # evs) = e # errors_of evs"
| "errors_of (ev # evs) = errors_of evs"

text \<open>The relocations announced by \<open>move_blob\<close>: source and target, in order.\<close>

fun relocations :: "event list \<Rightarrow> ((string \<times> string) \<times> (string \<times> string)) list" where
  "relocations [] = []"
| "relocations (Log l (Moving sb sn tb tn) # evs) = ((sb, sn), (tb, tn)) # relocations evs"
| "relocations (e # evs) = relocations evs"

section \<open>modules/gcs.py\<close>

record GCSClient =
  bucket_name :: "string option"
  blob_name :: "string option"

definition GCSClient_init ::
  "'s service \<Rightarrow> string option \<Rightarrow> string option \<Rightarrow> 's \<Rightarrow> (pyexn + GCSClient) \<times> 's \<times> event list" where
  "GCSClient_init srv bucket blob s =
     (case invoke srv Client_new s of
        (Inl e, s1, e1) \<Rightarrow> (Inl e, s1, e1)
      | (Inr c, s1, e1) \<Rightarrow>
          (Inr \<lparr>bucket_name = bucket, blob_name = blob\<rparr>, s1, e1 @ [Log DEBUG Client_Initialized]))"

definition get_validated_names ::
  "GCSClient \<Rightarrow> string option \<Rightarrow> string option \<Rightarrow> string \<Rightarrow> (string \<times> string) option \<times> event list" where
  "get_validated_names self bucket blob context =
     (let target_bucket_name = py_or bucket (bucket_name self);
          target_blob_name = py_or blob (blob_name self);
          e1 = [Log DEBUG (Validating_Names context target_bucket_name target_blob_name)]
      in case target_bucket_name of
           None \<Rightarrow> (None, e1 @ [Log ERROR (Names_Missing context)])
         | Some b \<Rightarrow>
             (case target_blob_name of
                None \<Rightarrow> (None, e1 @ [Log ERROR (Names_Missing context)])
              | Some n \<Rightarrow> (Some (b, n), e1)))"

definition get_blob_or_none ::
  "'s service \<Rightarrow> string \<Rightarrow> string \<Rightarrow> 's \<Rightarrow> (string \<times> string) option \<times> 's \<times> event list" where
  "get_blob_or_none srv b n s =
     (case invoke srv (Client_bucket b) s of
        (Inl e, s1, e1) \<Rightarrow> (None, s1, e1 @ [Log ERROR (Blob_Reference_Error b n e)])
      | (Inr bucket, s1, e1) \<Rightarrow>
          (case invoke srv (Bucket_blob b n) s1 of
             (Inl e, s2, e2) \<Rightarrow> (None, s2, e1 @ e2 @ [Log ERROR (Blob_Reference_Error b n e)])
           | (Inr blob, s2, e2) \<Rightarrow> (Some (b, n), s2, e1 @ e2)))"

definition get_blob ::
  "'s service \<Rightarrow> GCSClient \<Rightarrow> string option \<Rightarrow> string option \<Rightarrow> 's \<Rightarrow>
     (string \<times> string) option \<times> 's \<times> event list" where
  "get_blob srv self bucket blob s =
     (case get_validated_names self bucket blob ''get_blob'' of
        (None, e1) \<Rightarrow> (None, s, e1)
      | (Some (b, n), e1) \<Rightarrow>
          (case get_blob_or_none srv b n s of
             (None, s1, e2) \<Rightarrow> (None, s1, e1 @ e2)
           | (Some ref, s1, e2) \<Rightarrow> (Some ref, s1, e1 @ e2 @ [Log INFO (Reference_Created b n)])))"

definition get_blob_content ::
  "'s service \<Rightarrow> GCSClient \<Rightarrow> string option \<Rightarrow> string option \<Rightarrow> string \<Rightarrow> 's \<Rightarrow>
     unicode option \<times> 's \<times> event list" where
  "get_blob_content srv self bucket blob encoding s =
     (case get_blob srv self bucket blob s of
        (None, s1, e1) \<Rightarrow> (None, s1, e1 @ [Log WARNING Skipping_Content_Read])
      | (Some (b, n), s1, e1) \<Rightarrow>
          (case invoke srv (Blob_open_read b n encoding) s1 of
             (Inl e, s2, e2) \<Rightarrow>
               (None, s2, e1 @ [Log DEBUG (Reading_Content n encoding)] @ e2 @ [Log ERROR (Read_Failed n e)])
           | (Inr content, s2, e2) \<Rightarrow>
               (Some content, s2, e1 @ [Log DEBUG (Reading_Content n encoding)] @ e2 @ [Log INFO Read_Success])))"

text \<open>
  The \<^verbatim>\<open>try\<close> block of \<open>move_blob\<close>: the first call that raises ends it in the
  \<^verbatim>\<open>except\<close> branch.
\<close>

definition copy_then_delete ::
  "'s service \<Rightarrow> string \<Rightarrow> string \<Rightarrow> string \<Rightarrow> string \<Rightarrow> 's \<Rightarrow> bool \<times> 's \<times> event list" where
  "copy_then_delete srv sb sn tb tn s =
     (case invoke srv (Client_bucket sb) s of
        (Inl e, s1, e1) \<Rightarrow> (False, s1, e1 @ [Log ERROR (Move_Failed e)])
      | (Inr source_bucket, s1, e1) \<Rightarrow>
     (case invoke srv (Client_bucket tb) s1 of
        (Inl e, s2, e2) \<Rightarrow> (False, s2, e1 @ e2 @ [Log ERROR (Move_Failed e)])
      | (Inr target_bucket, s2, e2) \<Rightarrow>
     (case invoke srv (Bucket_blob sb sn) s2 of
        (Inl e, s3, e3) \<Rightarrow> (False, s3, e1 @ e2 @ e3 @ [Log ERROR (Move_Failed e)])
      | (Inr source_blob, s3, e3) \<Rightarrow>
     (case invoke srv (Bucket_copy_blob sb sn tb tn) s3 of
        (Inl e, s4, e4) \<Rightarrow> (False, s4, e1 @ e2 @ e3 @ e4 @ [Log ERROR (Move_Failed e)])
      | (Inr copied, s4, e4) \<Rightarrow>
     (case invoke srv (Blob_delete sb sn) s4 of
        (Inl e, s5, e5) \<Rightarrow>
          (False, s5, e1 @ e2 @ e3 @ e4 @ [Log DEBUG Copy_Completed] @ e5 @ [Log ERROR (Move_Failed e)])
      | (Inr deleted, s5, e5) \<Rightarrow>
          (True, s5, e1 @ e2 @ e3 @ e4 @ [Log DEBUG Copy_Completed] @ e5 @ [Log INFO Move_Successful]))))))"

definition move_blob ::
  "'s service \<Rightarrow> GCSClient \<Rightarrow> string option \<Rightarrow> string option \<Rightarrow> string option \<Rightarrow> string option \<Rightarrow> 's \<Rightarrow>
     bool \<times> 's \<times> event list" where
  "move_blob srv self source_bucket source_blob target_bucket target_blob s =
     (case get_validated_names self source_bucket source_blob ''move_blob source'' of
        (None, e1) \<Rightarrow> (False, s, e1)
      | (Some (sb, sn), e1) \<Rightarrow>
          (let tb = py_or_str (py_or target_bucket (bucket_name self)) sb;
               tn = py_or_str target_blob sn
           in if sn = tn \<and> sb = tb then (False, s, e1 @ [Log WARNING Same_Location])
              else (case copy_then_delete srv sb sn tb tn s of
                      (ok, s1, e2) \<Rightarrow> (ok, s1, e1 @ [Log INFO (Moving sb sn tb tn)] @ e2))))"

section \<open>modules/handler.py\<close>

definition SOURCE_BUCKET :: string where
  "SOURCE_BUCKET = ''supply-chain-compensation-analysis-with-nlp''"

definition SOURCE_FOLDER :: string where
  "SOURCE_FOLDER = ''raw_data''"

definition TARGET_FOLDER :: string where
  "TARGET_FOLDER = ''processed_data''"

text \<open>\<^verbatim>\<open>'/' in blob_name\<close>: substring test on a string, membership on a list or on the keys
  of a dictionary, \<^verbatim>\<open>TypeError\<close> on a value that is not a container.\<close>

fun slash_in :: "pyval \<Rightarrow> pyexn + bool" where
  "slash_in (PStr s) = Inr (CHR ''/'' \<in> set s)"
| "slash_in (PList vs) = Inr (PStr ''/'' \<in> set vs)"
| "slash_in (PDict kvs) = Inr (''/'' \<in> set (map fst kvs))"
| "slash_in v = Inl TypeError"

text \<open>
  Line 29, \<^verbatim>\<open>blob_name.rsplit('/', 1) if '/' in blob_name else ("", blob_name)\<close>, unpacked
  into \<open>folder_path\<close> and \<open>blob_path\<close>. Only a string has \<^verbatim>\<open>rsplit\<close>; unpacking
  wants two pieces.
\<close>

definition split_blob_name :: "pyval \<Rightarrow> pyexn + (string \<times> pyval)" where
  "split_blob_name blob =
     (case slash_in blob of
        Inl e \<Rightarrow> Inl e
      | Inr True \<Rightarrow>
          (case blob of
             PStr s \<Rightarrow>
               (case rsplit1 (CHR ''/'') s of
                  [folder_path, blob_path] \<Rightarrow> Inr (folder_path, PStr blob_path)
                | _ \<Rightarrow> Inl ValueError)
           | _ \<Rightarrow> Inl AttributeError)
      | Inr False \<Rightarrow> Inr ([], blob))"

text \<open>Line 59: the lines of the content that are not blank.\<close>

definition raw_data :: "unicode \<Rightarrow> unicode list" where
  "raw_data blob_data = filter (\<lambda>line. strip line \<noteq> []) (split newline blob_data)"

text \<open>
  Lines 46 to 77, reached with a bucket name, an object name and a file name that are
  strings.
\<close>

definition process_validated ::
  "'s service \<Rightarrow> string \<Rightarrow> string \<Rightarrow> string \<Rightarrow> 's \<Rightarrow> (pyexn + unit) \<times> 's \<times> event list" where
  "process_validated srv bucket blob blob_path s =
     (case GCSClient_init srv (Some bucket) (Some blob) s of
        (Inl e, s1, e1) \<Rightarrow> (Inl e, s1, [Log INFO (Validated_File bucket blob)] @ e1)
      | (Inr gcs_client, s1, e1) \<Rightarrow>
          (case get_blob_content srv gcs_client None None ''utf-8'' s1 of
             (None, s2, e2) \<Rightarrow>
               (Inr (), s2,
                [Log INFO (Validated_File bucket blob)] @ e1 @ e2 @
                [Log ERROR Failed_To_Retrieve, Log INFO Finished_Handling])
           | (Some blob_data, s2, e2) \<Rightarrow>
               (let target_blob_name = TARGET_FOLDER @ ''/'' @ blob_path;
                    e3 = [Log INFO (Read_Bytes (length blob_data)),
                          Log INFO (Raw_Data_Sample (take 5 (raw_data blob_data)))]
                in case move_blob srv gcs_client None None (Some bucket) (Some target_blob_name) s2 of
                     (move_success, s3, e4) \<Rightarrow>
                       (Inr (), s3,
                        [Log INFO (Validated_File bucket blob)] @ e1 @ e2 @ e3 @ e4 @
                        (if move_success then [] else [Log ERROR (Failed_To_Move_To target_blob_name)]) @
                        [Log INFO Finished_Handling]))))"

definition handle_gcs_event_data ::
  "'s service \<Rightarrow> (string \<rightharpoonup> pyval) \<Rightarrow> 's \<Rightarrow> (pyexn + unit) \<times> 's \<times> event list" where
  "handle_gcs_event_data srv data s =
     (let bucket = dict_get data ''bucket'' (PStr []);
          blob = dict_get data ''name'' (PStr [])
      in case split_blob_name blob of
           Inl e \<Rightarrow> (Inl e, s, [])
         | Inr (folder_path, blob_path) \<Rightarrow>
             if bucket \<noteq> PStr SOURCE_BUCKET
             then (Inr (), s, [Log INFO (Received_Event bucket blob), Log INFO (Ignoring_Bucket bucket)])
             else if folder_path \<noteq> SOURCE_FOLDER
             then (Inr (), s,
                   [Log INFO (Received_Event bucket blob), Log DEBUG (Folder_Path_Check folder_path),
                    Log INFO (Ignoring_Blob blob)])
             else (case (bucket, blob, blob_path) of
                     (PStr b, PStr n, PStr f) \<Rightarrow>
                       (case process_validated srv b n f s of
                          (r, s1, e1) \<Rightarrow>
                            (r, s1,
                             [Log INFO (Received_Event bucket blob),
                              Log DEBUG (Folder_Path_Check folder_path)] @ e1))
                   | _ \<Rightarrow> (Inl TypeError, s, [])))"

text \<open>
  The last branch stands for a bucket or object name that is not a string after both
  filters have passed; \<open>split_blob_name\<close> and the filters leave no such case
  (lemma \<open>validated_names_are_strings\<close>).
\<close>

section \<open>main.py\<close>


section \<open>An in-memory storage service\<close>

text \<open>
  Modelled from the spec: the storage service itself is an external collaborator of the
  repository. Constructing the client and the handles succeeds; reading, copying or
  deleting an absent object raises; a copy writes the target; a delete removes the
  source. The calls listed in \<open>denied\<close> are refused by the service, whatever the
  objects, which stands for a permission or transient fault.
\<close>

record store =
  objects :: "(string \<times> string) \<rightharpoonup> unicode"
  denied :: "call list"

definition mem_gcs :: "store service" where
  "mem_gcs c s =
     (if c \<in> set (denied s) then (Inl (ServiceError ''refused''), s)
      else (case c of
              Client_new \<Rightarrow> (Inr [], s)
            | Client_bucket b \<Rightarrow> (Inr [], s)
            | Bucket_blob b n \<Rightarrow> (Inr [], s)
            | Blob_open_read b n enc \<Rightarrow>
                (case objects s (b, n) of
                   None \<Rightarrow> (Inl (ServiceError ''not found''), s)
                 | Some text \<Rightarrow> (Inr text, s))
            | Bucket_copy_blob sb sn tb tn \<Rightarrow>
                (case objects s (sb, sn) of
                   None \<Rightarrow> (Inl (ServiceError ''not found''), s)
                 | Some text \<Rightarrow> (Inr [], s\<lparr>objects := (objects s)((tb, tn) \<mapsto> text)\<rparr>))
            | Blob_delete b n \<Rightarrow>
                (case objects s (b, n) of
                   None \<Rightarrow> (Inl (ServiceError ''not found''), s)
                 | Some text \<Rightarrow> (Inr [], s\<lparr>objects := (objects s)((b, n) := None)\<rparr>))))"

text \<open>\<^verbatim>\<open>sep.join(pieces)\<close>, used to state what the splitting functions compute.\<close>

fun join :: "'a list \<Rightarrow> 'a list list \<Rightarrow> 'a list" where
  "join sep [] = []"
| "join sep [piece] = piece"
| "join sep (piece # pieces) = piece @ sep @ join sep pieces"

section \<open>Splitting and joining\<close>

lemma calls_of_append: "calls_of (xs @ ys) = calls_of xs @ calls_of ys"
  by (induction xs rule: calls_of.induct) auto
lemma relocations_append: "relocations (xs @ ys) = relocations xs @ relocations ys"
  by (induction xs rule: relocations.induct) auto
lemma split_not_Nil: "split sep s \<noteq> []"
  by (induction s) (auto split: list.splits)
lemma join_Cons_Cons: "join sep ((x # piece) # pieces) = x # join sep (piece # pieces)"
  by (cases pieces) auto
lemma join_split: "join [sep] (split sep s) = s"
proof (induction s)
  case Nil
  show ?case by simp
next
  case (Cons x xs)
  obtain piece pieces where sp: "split sep xs = piece # pieces"
    using split_not_Nil [of sep xs] by (cases "split sep xs") auto
  show ?case
  proof (cases "x = sep")
    case True
    with Cons sp show ?thesis by simp
  next
    case False
    with Cons sp show ?thesis by (simp add: join_Cons_Cons)
  qed
qed
lemma split_no_sep: "sep \<notin> set (concat (split sep s))"
  by (induction s) (auto split: list.splits)
lemma dropWhile_all: "(\<forall>x\<in>set (dropWhile P l). P x) \<longleftrightarrow> dropWhile P l = []"
  using hd_dropWhile [of P l] by (cases "dropWhile P l") (auto dest: set_dropWhileD)
lemma strip_empty_iff: "strip l = [] \<longleftrightarrow> list_all isspace l"
  unfolding strip_def 
  by (simp add: dropWhile_eq_Nil_conv list_all_iff dropWhile_all)

lemma rsplit1_sep:
  assumes "sep \<in> set s"
  shows "\<exists>a b. rsplit1 sep s = [a, b] \<and> s = a @ sep # b \<and> sep \<notin> set b"
proof -
  let ?P = "\<lambda>x. x \<noteq> sep"
  have ne: "dropWhile ?P (rev s) \<noteq> []" using assms by (auto simp: dropWhile_eq_Nil_conv)
  then have hd: "hd (dropWhile ?P (rev s)) = sep" using hd_dropWhile [of ?P "rev s"] by simp
  have "rev s = takeWhile ?P (rev s) @ dropWhile ?P (rev s)" by simp
  also have "dropWhile ?P (rev s) = sep # tl (dropWhile ?P (rev s))"
    using ne hd by (cases "dropWhile ?P (rev s)") auto
  finally have "rev (rev s) = rev (takeWhile ?P (rev s) @ sep # tl (dropWhile ?P (rev s)))" by simp
  then have "s = rev (tl (dropWhile ?P (rev s))) @ sep # rev (takeWhile ?P (rev s))" by simp
  moreover have "sep \<notin> set (rev (takeWhile ?P (rev s)))"
    by (auto dest: set_takeWhileD)
  ultimately show ?thesis using assms by (simp add: rsplit1_def)
qed

lemma split_without_sep: "sep \<notin> set b \<Longrightarrow> split sep b = [b]"
  by (induction b) auto
lemma split_append_sep:
  "sep \<notin> set b \<Longrightarrow> split sep (a @ sep # b) = split sep a @ [b]"
  by (induction a) (auto simp: split_without_sep split_not_Nil split: list.splits)

lemma split_blob_name_str:
  "\<exists>folder_path blob_path. split_blob_name (PStr n) = Inr (folder_path, PStr blob_path)
     \<and> blob_path = last (split (CHR ''/'') n)
     \<and> folder_path = join ''/'' (butlast (split (CHR ''/'') n))"
proof (cases "CHR ''/'' \<in> set n")
  case True
  from rsplit1_sep [OF True] obtain a b where
    r: "rsplit1 (CHR ''/'') n = [a, b]" and n: "n = a @ CHR ''/'' # b" and b: "CHR ''/'' \<notin> set b"
    by blast
  have sp: "split (CHR ''/'') n = split (CHR ''/'') a @ [b]"
    using split_append_sep [OF b, of a] n by simp
  have "join ''/'' (split (CHR ''/'') a) = a" by (rule join_split)
  with True r sp show ?thesis by (simp add: split_blob_name_def)
next
  case False
  then have "split (CHR ''/'') n = [n]" by (rule split_without_sep)
  with False show ?thesis by (simp add: split_blob_name_def)
qed

section \<open>What the adapter operations do\<close>

lemma py_or_simps:
  "py_or None d = d" "py_or (Some []) d = d" "py_or d d = d"
  "x \<noteq> [] \<Longrightarrow> py_or (Some x) d = Some x"
  by (simp_all add: py_or_def truthy_def)

lemma py_or_str_simps:
  "py_or_str None d = d" "py_or_str (Some []) d = d" "py_or_str (Some d) d = d"
  "x \<noteq> [] \<Longrightarrow> py_or_str (Some x) d = x"
  by (simp_all add: py_or_str_def)

lemma get_validated_names_fst:
  "fst (get_validated_names self bucket blob context) =
     (case py_or bucket (bucket_name self) of
        None \<Rightarrow> None
      | Some b \<Rightarrow> (case py_or blob (blob_name self) of None \<Rightarrow> None | Some n \<Rightarrow> Some (b, n)))"
  by (simp add: get_validated_names_def Let_def split: option.splits)

lemma get_validated_names_events:
  "calls_of (snd (get_validated_names self bucket blob context)) = []"
  "relocations (snd (get_validated_names self bucket blob context)) = []"
  by (simp_all add: get_validated_names_def Let_def split: option.splits)

lemma get_validated_names_None:
  "py_or bucket (bucket_name self) = None \<or> py_or blob (blob_name self) = None \<Longrightarrow>
     \<exists>evs. get_validated_names self bucket blob context = (None, evs) \<and> calls_of evs = []"
  by (auto simp add: get_validated_names_def Let_def split: option.splits)

lemma get_validated_names_Some:
  "py_or bucket (bucket_name self) = Some b \<Longrightarrow> py_or blob (blob_name self) = Some n \<Longrightarrow>
     get_validated_names self bucket blob context =
       (Some (b, n), [Log DEBUG (Validating_Names context (Some b) (Some n))])"
  by (simp add: get_validated_names_def Let_def)

lemma get_blob_or_none_events:
  "get_blob_or_none srv b n s = (r, s', evs) \<Longrightarrow>
     relocations evs = [] \<and> filter is_mutation (calls_of evs) = []"
  by (auto simp: get_blob_or_none_def invoke_def split: prod.splits sum.splits)

lemma get_blob_events:
  "get_blob srv self bucket blob s = (r, s', evs) \<Longrightarrow>
     relocations evs = [] \<and> filter is_mutation (calls_of evs) = []"
  using get_validated_names_events [of self bucket blob "''get_blob''"]
  by (auto simp: get_blob_def calls_of_append relocations_append
           split: prod.splits option.splits dest!: get_blob_or_none_events)

lemma get_blob_content_events:
  "get_blob_content srv self bucket blob enc s = (r, s', evs) \<Longrightarrow>
     relocations evs = [] \<and> filter is_mutation (calls_of evs) = []"
  by (auto simp: get_blob_content_def invoke_def calls_of_append relocations_append
           split: prod.splits option.splits sum.splits dest!: get_blob_events)

lemma copy_then_delete_events:
  "copy_then_delete srv sb sn tb tn s = (ok, s', evs) \<Longrightarrow>
     relocations evs = [] \<and>
     (filter is_mutation (calls_of evs) = []
      \<or> filter is_mutation (calls_of evs) = [Bucket_copy_blob sb sn tb tn]
      \<or> filter is_mutation (calls_of evs) = [Bucket_copy_blob sb sn tb tn, Blob_delete sb sn])"
  by (auto simp: copy_then_delete_def invoke_def split: prod.splits sum.splits)

lemma errors_of_append: "errors_of (xs @ ys) = errors_of xs @ errors_of ys"
  by (induction xs rule: errors_of.induct) auto

lemma validated_names_are_strings:
  assumes "split_blob_name blob = Inr (SOURCE_FOLDER, blob_path)"
  shows "\<exists>n f. blob = PStr n \<and> blob_path = PStr f"
  using assms
  by (cases blob)
     (auto simp: split_blob_name_def SOURCE_FOLDER_def rsplit1_def split: if_splits bool.splits)

lemma get_validated_names_logs:
  "get_validated_names self bucket blob context = (r, evs) \<Longrightarrow>
     calls_of evs = [] \<and> relocations evs = [] \<and> errors_of evs = []
     \<and> (\<forall>c x. Call c x \<notin> set evs) \<and> Log DEBUG Copy_Completed \<notin> set evs
     \<and> (\<forall>e. Log ERROR (Move_Failed e) \<notin> set evs)"
  by (auto simp: get_validated_names_def Let_def split: option.splits)

lemma copy_then_delete_result:
  assumes "copy_then_delete srv sb sn tb tn s = (ok, s', evs)"
  shows "(ok \<longrightarrow>
            calls_of evs = [Client_bucket sb, Client_bucket tb, Bucket_blob sb sn,
                            Bucket_copy_blob sb sn tb tn, Blob_delete sb sn]
            \<and> errors_of evs = []
            \<and> (\<exists>copied. Call (Bucket_copy_blob sb sn tb tn) (Inr copied) \<in> set evs)
            \<and> (\<exists>deleted. Call (Blob_delete sb sn) (Inr deleted) \<in> set evs))"
    and "errors_of evs \<noteq> [] \<longrightarrow> \<not> ok"
    and "calls_of evs \<noteq> []"
    and "Call (Blob_delete b n) (Inl e) \<in> set evs \<longrightarrow>
           \<not> ok \<and> Log ERROR (Move_Failed e) \<in> set evs \<and> Log DEBUG Copy_Completed \<in> set evs
           \<and> (\<exists>copied. Call (Bucket_copy_blob sb sn tb tn) (Inr copied) \<in> set evs)"
  using assms
  by (auto simp: copy_then_delete_def invoke_def split: prod.splits sum.splits)

lemma split_blob_name_folder:
  assumes "split_blob_name (PStr n) = Inr (folder_path, blob_path)" and "folder_path \<noteq> []"
  shows "\<exists>f. blob_path = PStr f \<and> n = folder_path @ CHR ''/'' # f \<and> f = last (split (CHR ''/'') n)"
proof -
  from assms have sl: "CHR ''/'' \<in> set n"
    by (auto simp: split_blob_name_def split: bool.splits)
  from rsplit1_sep [OF sl] obtain a b where
    r: "rsplit1 (CHR ''/'') n = [a, b]" and n: "n = a @ CHR ''/'' # b" and b: "CHR ''/'' \<notin> set b"
    by blast
  have "split (CHR ''/'') n = split (CHR ''/'') a @ [b]"
    using split_append_sep [OF b, of a] n by simp
  with assms(1) sl r n show ?thesis by (simp add: split_blob_name_def)
qed

lemma handle_qualifying:
  assumes "dict_get data ''bucket'' (PStr []) = PStr SOURCE_BUCKET"
    and "dict_get data ''name'' (PStr []) = PStr n"
    and "split_blob_name (PStr n) = Inr (SOURCE_FOLDER, PStr f)"
  shows "handle_gcs_event_data srv data s =
     (case process_validated srv SOURCE_BUCKET n f s of
        (r, s1, e1) \<Rightarrow>
          (r, s1, [Log INFO (Received_Event (PStr SOURCE_BUCKET) (PStr n)),
                   Log DEBUG (Folder_Path_Check SOURCE_FOLDER)] @ e1))"
  using assms by (simp add: handle_gcs_event_data_def Let_def)

lemma GCSClient_init_Inr:
  assumes "GCSClient_init srv bucket blob s = (Inr client, s1, e1)"
  shows "client = \<lparr>bucket_name = bucket, blob_name = blob\<rparr> \<and> calls_of e1 = [Client_new]
         \<and> relocations e1 = [] \<and> errors_of e1 = [] \<and> Log ERROR Failed_To_Retrieve \<notin> set e1
         \<and> s1 = snd (srv Client_new s)"
  using assms by (auto simp: GCSClient_init_def invoke_def split: prod.splits sum.splits)

lemma get_blob_content_Some:
  assumes "get_blob_content srv self bucket blob enc s = (Some content, s', evs)"
  shows "errors_of evs = []"
  using assms
  by (auto simp: get_blob_content_def get_blob_def get_blob_or_none_def get_validated_names_def
        invoke_def Let_def errors_of_append split: prod.splits sum.splits option.splits)

lemma get_blob_content_frame:
  assumes "\<forall>c t. \<not> is_mutation c \<longrightarrow> snd (srv c t) = t"
    and "get_blob_content srv self bucket blob enc s = (r, s', evs)"
  shows "s' = s"
proof -
  have f: "\<And>c t r t'. srv c t = (r, t') \<Longrightarrow> \<not> is_mutation c \<Longrightarrow> t' = t"
    using assms(1) by (metis snd_conv)
  from assms(2) show ?thesis
    by (auto simp: get_blob_content_def get_blob_def get_blob_or_none_def
          invoke_def split: prod.splits sum.splits option.splits dest!: f)
qed

lemma move_blob_in_handler:
  assumes "n \<noteq> t" and "t \<noteq> []"
  shows "move_blob srv \<lparr>bucket_name = Some b, blob_name = Some n\<rparr> None None (Some b) (Some t) s =
     (case copy_then_delete srv b n b t s of
        (ok, s1, e2) \<Rightarrow>
          (ok, s1, [Log DEBUG (Validating_Names ''move_blob source'' (Some b) (Some n)),
                    Log INFO (Moving b n b t)] @ e2))"
  using assms
  by (simp add: move_blob_def get_validated_names_def py_or_def truthy_def py_or_str_def Let_def)

lemma copy_then_delete_no_error:
  assumes "copy_then_delete srv sb sn tb tn s = (ok, s', evs)" and "errors_of evs = []"
  shows "filter is_mutation (calls_of evs) = [Bucket_copy_blob sb sn tb tn, Blob_delete sb sn]"
  using assms
  by (auto simp: copy_then_delete_def invoke_def split: prod.splits sum.splits)

lemma split_blob_name_Inr_iff:
  "(\<exists>p. split_blob_name v = Inr p) =
     (case v of
        PStr n \<Rightarrow> True
      | PList vs \<Rightarrow> PStr ''/'' \<notin> set vs
      | PDict kvs \<Rightarrow> ''/'' \<notin> set (map fst kvs)
      | _ \<Rightarrow> False)"
proof (cases v)
  case (PStr n)
  with split_blob_name_str [of n] show ?thesis by auto
qed (force simp: split_blob_name_def split: bool.splits)+

lemma handle_split_fails:
  "split_blob_name (dict_get data ''name'' (PStr [])) = Inl e \<Longrightarrow>
     handle_gcs_event_data srv data s = (Inl e, s, [])"
  by (simp add: handle_gcs_event_data_def Let_def)

lemma handle_non_match:
  assumes "split_blob_name (dict_get data ''name'' (PStr [])) = Inr (folder_path, blob_path)"
    and "dict_get data ''bucket'' (PStr []) \<noteq> PStr SOURCE_BUCKET \<or> folder_path \<noteq> SOURCE_FOLDER"
  shows "\<exists>evs. handle_gcs_event_data srv data s = (Inr (), s, evs) \<and> calls_of evs = [] \<and> relocations evs = []"
  using assms by (auto simp: handle_gcs_event_data_def Let_def)

lemma copy_then_delete_ok_iff:
  assumes "copy_then_delete srv sb sn tb tn s = (ok, s', evs)"
  shows "ok = (errors_of evs = [])"
  using assms
  by (auto simp: copy_then_delete_def invoke_def split: prod.splits sum.splits)

lemma copy_then_delete_delete_fails:
  assumes "copy_then_delete srv sb sn tb tn s = (ok, s', evs)"
    and "Call (Blob_delete b n) (Inl e) \<in> set evs"
  shows "\<not> ok \<and> b = sb \<and> n = sn
         \<and> (\<exists>copied. Call (Bucket_copy_blob sb sn tb tn) (Inr copied) \<in> set evs)
         \<and> Log DEBUG Copy_Completed \<in> set evs \<and> Log ERROR (Move_Failed e) \<in> set evs"
  using assms
  by (auto simp: copy_then_delete_def invoke_def split: prod.splits sum.splits)

lemmas eval_defs = move_blob_def get_validated_names_def copy_then_delete_def invoke_def mem_gcs_def
  py_or_def truthy_def py_or_str_def Let_def get_blob_def get_blob_or_none_def get_blob_content_def

lemmas handler_defs = handle_gcs_event_data_def process_validated_def GCSClient_init_def dict_get_def
  split_blob_name_def rsplit1_def SOURCE_BUCKET_def SOURCE_FOLDER_def TARGET_FOLDER_def



lemma rsplit1_append:
  assumes "sep \<notin> set b"
  shows "rsplit1 sep (a @ sep # b) = [a, b]"
proof -
  from assms have all: "\<And>x. x \<in> set (rev b) \<Longrightarrow> x \<noteq> sep" by auto
  have t: "takeWhile (\<lambda>x. x \<noteq> sep) (rev b @ sep # rev a) = rev b"
    using takeWhile_append2 [of "rev b" "\<lambda>x. x \<noteq> sep" "sep # rev a", OF all] by simp
  have d: "dropWhile (\<lambda>x. x \<noteq> sep) (rev b @ sep # rev a) = sep # rev a"
    using dropWhile_append2 [of "rev b" "\<lambda>x. x \<noteq> sep" "sep # rev a", OF all] by simp
  from t d show ?thesis by (simp add: rsplit1_def)
qed

lemma split_blob_name_source:
  "CHR ''/'' \<notin> set f \<Longrightarrow> split_blob_name (PStr (SOURCE_FOLDER @ ''/'' @ f)) = Inr (SOURCE_FOLDER, PStr f)"
  using rsplit1_append [of "CHR ''/''" f SOURCE_FOLDER]
  by (simp add: split_blob_name_def)

lemma mem_gcs_simps:
  assumes "denied s = []"
  shows "mem_gcs Client_new s = (Inr [], s)"
    and "mem_gcs (Client_bucket b) s = (Inr [], s)"
    and "mem_gcs (Bucket_blob b n) s = (Inr [], s)"
    and "mem_gcs (Blob_open_read b n enc) s =
          (case objects s (b, n) of None \<Rightarrow> (Inl (ServiceError ''not found''), s) | Some text \<Rightarrow> (Inr text, s))"
    and "mem_gcs (Bucket_copy_blob sb sn tb tn) s =
          (case objects s (sb, sn) of
             None \<Rightarrow> (Inl (ServiceError ''not found''), s)
           | Some text \<Rightarrow> (Inr [], s\<lparr>objects := (objects s)((tb, tn) \<mapsto> text)\<rparr>))"
    and "mem_gcs (Blob_delete b n) s =
          (case objects s (b, n) of
             None \<Rightarrow> (Inl (ServiceError ''not found''), s)
           | Some text \<Rightarrow> (Inr [], s\<lparr>objects := (objects s)((b, n) := None)\<rparr>))"
  using assms by (simp_all add: mem_gcs_def)

lemma source_target_differ:
  "SOURCE_FOLDER @ ''/'' @ f \<noteq> TARGET_FOLDER @ ''/'' @ f"
  by (simp add: SOURCE_FOLDER_def TARGET_FOLDER_def)

lemma first_delivery:
  assumes "CHR ''/'' \<notin> set f"
    and "objects s (SOURCE_BUCKET, SOURCE_FOLDER @ ''/'' @ f) = Some text"
    and "denied s = []"
  shows "fst (process_validated mem_gcs SOURCE_BUCKET (SOURCE_FOLDER @ ''/'' @ f) f s) = Inr ()"
    and "fst (snd (process_validated mem_gcs SOURCE_BUCKET (SOURCE_FOLDER @ ''/'' @ f) f s)) =
          s\<lparr>objects := ((objects s)((SOURCE_BUCKET, TARGET_FOLDER @ ''/'' @ f) \<mapsto> text))
                           ((SOURCE_BUCKET, SOURCE_FOLDER @ ''/'' @ f) := None)\<rparr>"
    and "Log INFO Move_Successful \<in> set (snd (snd (process_validated mem_gcs SOURCE_BUCKET (SOURCE_FOLDER @ ''/'' @ f) f s)))"
  using assms source_target_differ [of f]
  by (simp_all add: process_validated_def GCSClient_init_def get_blob_content_def get_blob_def
        get_blob_or_none_def get_validated_names_def move_blob_def copy_then_delete_def invoke_def
        mem_gcs_simps py_or_def py_or_str_def truthy_def Let_def SOURCE_BUCKET_def)

lemma second_delivery:
  assumes "objects s (SOURCE_BUCKET, n) = None"
    and "denied s = []"
  shows "process_validated mem_gcs SOURCE_BUCKET n f s =
     (Inr (), s,
      [Log INFO (Validated_File SOURCE_BUCKET n),
       Call Client_new (Inr []), Log DEBUG Client_Initialized,
       Log DEBUG (Validating_Names ''get_blob'' (Some SOURCE_BUCKET) (Some n)),
       Call (Client_bucket SOURCE_BUCKET) (Inr []),
       Call (Bucket_blob SOURCE_BUCKET n) (Inr []),
       Log INFO (Reference_Created SOURCE_BUCKET n),
       Log DEBUG (Reading_Content n ''utf-8''),
       Call (Blob_open_read SOURCE_BUCKET n ''utf-8'') (Inl (ServiceError ''not found'')),
       Log ERROR (Read_Failed n (ServiceError ''not found'')),
       Log ERROR Failed_To_Retrieve, Log INFO Finished_Handling])"
  using assms
  by (simp add: process_validated_def GCSClient_init_def get_blob_content_def get_blob_def
        get_blob_or_none_def get_validated_names_def invoke_def
        mem_gcs_simps py_or_def truthy_def Let_def)

lemma redelivery:
  assumes "dict_get data ''bucket'' (PStr []) = PStr SOURCE_BUCKET"
    and "dict_get data ''name'' (PStr []) = PStr (SOURCE_FOLDER @ ''/'' @ f)"
    and "CHR ''/'' \<notin> set f"
    and "objects s (SOURCE_BUCKET, SOURCE_FOLDER @ ''/'' @ f) = Some text"
    and "denied s = []"
  shows "\<exists>s1 evs1.
           handle_gcs_event_data mem_gcs data s = (Inr (), s1, evs1)
         \<and> Log INFO Move_Successful \<in> set evs1
         \<and> objects s1 = ((objects s)((SOURCE_BUCKET, TARGET_FOLDER @ ''/'' @ f) \<mapsto> text))
                            ((SOURCE_BUCKET, SOURCE_FOLDER @ ''/'' @ f) := None)
         \<and> handle_gcs_event_data mem_gcs data s1 =
             (Inr (), s1,
              [Log INFO (Received_Event (PStr SOURCE_BUCKET) (PStr (SOURCE_FOLDER @ ''/'' @ f))),
               Log DEBUG (Folder_Path_Check SOURCE_FOLDER),
               Log INFO (Validated_File SOURCE_BUCKET (SOURCE_FOLDER @ ''/'' @ f)),
               Call Client_new (Inr []), Log DEBUG Client_Initialized,
               Log DEBUG (Validating_Names ''get_blob'' (Some SOURCE_BUCKET) (Some (SOURCE_FOLDER @ ''/'' @ f))),
               Call (Client_bucket SOURCE_BUCKET) (Inr []),
               Call (Bucket_blob SOURCE_BUCKET (SOURCE_FOLDER @ ''/'' @ f)) (Inr []),
               Log INFO (Reference_Created SOURCE_BUCKET (SOURCE_FOLDER @ ''/'' @ f)),
               Log DEBUG (Reading_Content (SOURCE_FOLDER @ ''/'' @ f) ''utf-8''),
               Call (Blob_open_read SOURCE_BUCKET (SOURCE_FOLDER @ ''/'' @ f) ''utf-8'')
                 (Inl (ServiceError ''not found'')),
               Log ERROR (Read_Failed (SOURCE_FOLDER @ ''/'' @ f) (ServiceError ''not found'')),
               Log ERROR Failed_To_Retrieve, Log INFO Finished_Handling])"
proof -
  let ?n = "SOURCE_FOLDER @ ''/'' @ f"
  let ?s1 = "s\<lparr>objects := ((objects s)((SOURCE_BUCKET, TARGET_FOLDER @ ''/'' @ f) \<mapsto> text))
                           ((SOURCE_BUCKET, ?n) := None)\<rparr>"
  let ?pre = "[Log INFO (Received_Event (PStr SOURCE_BUCKET) (PStr ?n)),
               Log DEBUG (Folder_Path_Check SOURCE_FOLDER)]"
  note q = handle_qualifying [OF assms(1,2) split_blob_name_source [OF assms(3)]]
  note fd = first_delivery [OF assms(3,4,5)]
  obtain r s' e where pe: "process_validated mem_gcs SOURCE_BUCKET ?n f s = (r, s', e)"
    by (cases "process_validated mem_gcs SOURCE_BUCKET ?n f s") auto
  from fd pe have r: "r = Inr ()" and s': "s' = ?s1" and e: "Log INFO Move_Successful \<in> set e"
    by simp_all
  have h1: "handle_gcs_event_data mem_gcs data s = (Inr (), ?s1, ?pre @ e)"
    unfolding q pe r s' by simp
  have m1: "Log INFO Move_Successful \<in> set (?pre @ e)"
    using e by simp
  have gone: "objects ?s1 (SOURCE_BUCKET, ?n) = None" and d1: "denied ?s1 = []"
    using assms(5) by simp_all
  note sd = second_delivery [OF gone d1, of f]
  have o1: "objects ?s1 = ((objects s)((SOURCE_BUCKET, TARGET_FOLDER @ ''/'' @ f) \<mapsto> text))
                            ((SOURCE_BUCKET, ?n) := None)"
    by simp
  have h2: "handle_gcs_event_data mem_gcs data ?s1 =
             (Inr (), ?s1,
              [Log INFO (Received_Event (PStr SOURCE_BUCKET) (PStr ?n)),
               Log DEBUG (Folder_Path_Check SOURCE_FOLDER),
               Log INFO (Validated_File SOURCE_BUCKET ?n),
               Call Client_new (Inr []), Log DEBUG Client_Initialized,
               Log DEBUG (Validating_Names ''get_blob'' (Some SOURCE_BUCKET) (Some ?n)),
               Call (Client_bucket SOURCE_BUCKET) (Inr []),
               Call (Bucket_blob SOURCE_BUCKET ?n) (Inr []),
               Log INFO (Reference_Created SOURCE_BUCKET ?n),
               Log DEBUG (Reading_Content ?n ''utf-8''),
               Call (Blob_open_read SOURCE_BUCKET ?n ''utf-8'') (Inl (ServiceError ''not found'')),
               Log ERROR (Read_Failed ?n (ServiceError ''not found'')),
               Log ERROR Failed_To_Retrieve, Log INFO Finished_Handling])"
    unfolding q sd by simp
  from h1 m1 o1 h2 show ?thesis by blast
qed

section \<open>The claims\<close>

text \<open>
  C1. A notification in \<open>SOURCE_BUCKET\<close> whose object name splits at its last \<^verbatim>\<open>/\<close> into
  \<open>SOURCE_FOLDER\<close> and a file name, and whose content fetch returns text: the handler
  returns normally and announces exactly one relocation, from the notification's bucket
  and object to the same bucket and \<open>TARGET_FOLDER\<close>, \<^verbatim>\<open>/\<close> and the last \<^verbatim>\<open>/\<close>-separated
  piece of the object name. Its copy and delete calls are at most that one copy followed
  by the delete of the source, and exactly these two when no library call raises.
\<close>

theorem relocation_target:
  assumes "dict_get data ''bucket'' (PStr []) = PStr SOURCE_BUCKET"
    and "dict_get data ''name'' (PStr []) = PStr n"
    and "split_blob_name (PStr n) = Inr (SOURCE_FOLDER, blob_path)"
    and "GCSClient_init srv (Some SOURCE_BUCKET) (Some n) s = (Inr gcs_client, s1, e1)"
    and "get_blob_content srv gcs_client None None ''utf-8'' s1 = (Some blob_data, s2, e2)"
  shows "\<exists>s3 evs. handle_gcs_event_data srv data s = (Inr (), s3, evs)
           \<and> blob_path = PStr (last (split (CHR ''/'') n))
           \<and> relocations evs =
               [((SOURCE_BUCKET, n), (SOURCE_BUCKET, TARGET_FOLDER @ ''/'' @ last (split (CHR ''/'') n)))]
           \<and> (filter is_mutation (calls_of evs) = []
              \<or> filter is_mutation (calls_of evs) =
                  [Bucket_copy_blob SOURCE_BUCKET n SOURCE_BUCKET (TARGET_FOLDER @ ''/'' @ last (split (CHR ''/'') n))]
              \<or> filter is_mutation (calls_of evs) =
                  [Bucket_copy_blob SOURCE_BUCKET n SOURCE_BUCKET (TARGET_FOLDER @ ''/'' @ last (split (CHR ''/'') n)),
                   Blob_delete SOURCE_BUCKET n])
           \<and> (errors_of evs = [] \<longrightarrow>
                filter is_mutation (calls_of evs) =
                  [Bucket_copy_blob SOURCE_BUCKET n SOURCE_BUCKET (TARGET_FOLDER @ ''/'' @ last (split (CHR ''/'') n)),
                   Blob_delete SOURCE_BUCKET n])"
proof -
  have sf: "SOURCE_FOLDER \<noteq> []" by (simp add: SOURCE_FOLDER_def)
  from split_blob_name_folder [OF assms(3) sf] obtain f where
    f: "blob_path = PStr f" and n: "n = SOURCE_FOLDER @ CHR ''/'' # f" and l: "f = last (split (CHR ''/'') n)"
    by blast
  let ?t = "TARGET_FOLDER @ ''/'' @ f"
  have nt: "n \<noteq> ?t" "?t \<noteq> []" using n by (simp_all add: SOURCE_FOLDER_def TARGET_FOLDER_def)
  note i = GCSClient_init_Inr [OF assms(4)]
  note c = get_blob_content_events [OF assms(5)]
  note ce = get_blob_content_Some [OF assms(5)]
  obtain ok s3 e3 where cd: "copy_then_delete srv SOURCE_BUCKET n SOURCE_BUCKET ?t s2 = (ok, s3, e3)"
    by (cases "copy_then_delete srv SOURCE_BUCKET n SOURCE_BUCKET ?t s2") auto
  note m = copy_then_delete_events [OF cd]
  let ?evs = "[Log INFO (Received_Event (PStr SOURCE_BUCKET) (PStr n)),
               Log DEBUG (Folder_Path_Check SOURCE_FOLDER), Log INFO (Validated_File SOURCE_BUCKET n)]
              @ e1 @ e2 @
              [Log INFO (Read_Bytes (length blob_data)),
               Log INFO (Raw_Data_Sample (take 5 (raw_data blob_data))),
               Log DEBUG (Validating_Names ''move_blob source'' (Some SOURCE_BUCKET) (Some n)),
               Log INFO (Moving SOURCE_BUCKET n SOURCE_BUCKET ?t)] @ e3 @
              (if ok then [] else [Log ERROR (Failed_To_Move_To ?t)]) @ [Log INFO Finished_Handling]"
  have mv: "move_blob srv gcs_client None None (Some SOURCE_BUCKET) (Some ?t) s2 =
      (ok, s3, [Log DEBUG (Validating_Names ''move_blob source'' (Some SOURCE_BUCKET) (Some n)),
                Log INFO (Moving SOURCE_BUCKET n SOURCE_BUCKET ?t)] @ e3)"
    using i cd move_blob_in_handler [OF nt, of srv SOURCE_BUCKET s2] by simp
  have h: "handle_gcs_event_data srv data s = (Inr (), s3, ?evs)"
    using assms(3,4,5) f mv
    by (simp add: handle_qualifying [OF assms(1,2)] process_validated_def Let_def)
  have r: "relocations ?evs = [((SOURCE_BUCKET, n), (SOURCE_BUCKET, ?t))]"
    using i c m by (simp add: relocations_append)
  have mu: "filter is_mutation (calls_of ?evs) = filter is_mutation (calls_of e3)"
    using i c by (simp add: calls_of_append)
  have er: "errors_of ?evs = errors_of e3"
    using i ce by (simp add: errors_of_append)
  have ne: "errors_of ?evs = [] \<longrightarrow>
      filter is_mutation (calls_of ?evs) = [Bucket_copy_blob SOURCE_BUCKET n SOURCE_BUCKET ?t, Blob_delete SOURCE_BUCKET n]"
    using copy_then_delete_no_error [OF cd] mu er by simp
  from h f l r mu m ne show ?thesis by auto
qed

theorem relocation_target_witness:
  "dict_get [''bucket'' \<mapsto> PStr SOURCE_BUCKET, ''name'' \<mapsto> PStr ''raw_data/replies.txt''] ''bucket'' (PStr [])
     = PStr SOURCE_BUCKET
   \<and> dict_get [''bucket'' \<mapsto> PStr SOURCE_BUCKET, ''name'' \<mapsto> PStr ''raw_data/replies.txt''] ''name'' (PStr [])
     = PStr ''raw_data/replies.txt''
   \<and> split_blob_name (PStr ''raw_data/replies.txt'') = Inr (SOURCE_FOLDER, PStr ''replies.txt'')
   \<and> fst (GCSClient_init mem_gcs (Some SOURCE_BUCKET) (Some ''raw_data/replies.txt'')
          \<lparr>objects = [(SOURCE_BUCKET, ''raw_data/replies.txt'') \<mapsto> [104, 105]], denied = []\<rparr>)
     = Inr \<lparr>bucket_name = Some SOURCE_BUCKET, blob_name = Some ''raw_data/replies.txt''\<rparr>
   \<and> fst (get_blob_content mem_gcs \<lparr>bucket_name = Some SOURCE_BUCKET, blob_name = Some ''raw_data/replies.txt''\<rparr>
          None None ''utf-8''
          \<lparr>objects = [(SOURCE_BUCKET, ''raw_data/replies.txt'') \<mapsto> [104, 105]], denied = []\<rparr>) = Some [104, 105]
   \<and> (\<exists>s3 evs. handle_gcs_event_data mem_gcs
          [''bucket'' \<mapsto> PStr SOURCE_BUCKET, ''name'' \<mapsto> PStr ''raw_data/replies.txt'']
          \<lparr>objects = [(SOURCE_BUCKET, ''raw_data/replies.txt'') \<mapsto> [104, 105]], denied = []\<rparr> = (Inr (), s3, evs)
        \<and> relocations evs =
            [((SOURCE_BUCKET, ''raw_data/replies.txt''), (SOURCE_BUCKET, ''processed_data/replies.txt''))])"
proof -
  let ?data = "[''bucket'' \<mapsto> PStr SOURCE_BUCKET, ''name'' \<mapsto> PStr ''raw_data/replies.txt'']"
  let ?s = "\<lparr>objects = [(SOURCE_BUCKET, ''raw_data/replies.txt'') \<mapsto> [104, 105]], denied = []\<rparr>"
  let ?cl = "\<lparr>bucket_name = Some SOURCE_BUCKET, blob_name = Some ''raw_data/replies.txt''\<rparr>"
  let ?i = "GCSClient_init mem_gcs (Some SOURCE_BUCKET) (Some ''raw_data/replies.txt'') ?s"
  let ?g = "get_blob_content mem_gcs ?cl None None ''utf-8'' ?s"
  have h1: "dict_get ?data ''bucket'' (PStr []) = PStr SOURCE_BUCKET"
    by (simp add: dict_get_def)
  have h2: "dict_get ?data ''name'' (PStr []) = PStr ''raw_data/replies.txt''"
    by (simp add: dict_get_def)
  have h3: "split_blob_name (PStr ''raw_data/replies.txt'') = Inr (SOURCE_FOLDER, PStr ''replies.txt'')"
    by (simp add: split_blob_name_def rsplit1_def SOURCE_FOLDER_def)
  have i1: "fst ?i = Inr ?cl" and i2: "fst (snd ?i) = ?s"
    by (simp_all add: GCSClient_init_def invoke_def mem_gcs_def)
  have g1: "fst ?g = Some [104, 105]" and g2: "fst (snd ?g) = ?s"
    by (simp_all add: eval_defs)
  have h4: "?i = (Inr ?cl, ?s, snd (snd ?i))"
    using i1 i2 by (metis prod.collapse)
  have h5: "?g = (Some [104, 105], ?s, snd (snd ?g))"
    using g1 g2 by (metis prod.collapse)
  have t: "TARGET_FOLDER @ ''/'' @ ''replies.txt'' = ''processed_data/replies.txt''"
    by (simp add: TARGET_FOLDER_def)
  from relocation_target [OF h1 h2 h3 h4 h5]
  obtain s3 evs where "handle_gcs_event_data mem_gcs ?data ?s = (Inr (), s3, evs)"
    and "PStr ''replies.txt'' = PStr (last (split (CHR ''/'') ''raw_data/replies.txt''))"
    and "relocations evs = [((SOURCE_BUCKET, ''raw_data/replies.txt''),
           (SOURCE_BUCKET, TARGET_FOLDER @ ''/'' @ last (split (CHR ''/'') ''raw_data/replies.txt'')))]"
    by blast
  then have "\<exists>s3 evs. handle_gcs_event_data mem_gcs ?data ?s = (Inr (), s3, evs)
        \<and> relocations evs =
            [((SOURCE_BUCKET, ''raw_data/replies.txt''), (SOURCE_BUCKET, ''processed_data/replies.txt''))]"
    using t by auto
  with h1 h2 h3 i1 g1 show ?thesis by blast
qed

text \<open>
  C2, as amended. A notification whose bucket differs from \<open>SOURCE_BUCKET\<close>, or whose
  object name does not split at its last \<^verbatim>\<open>/\<close> into the folder \<open>SOURCE_FOLDER\<close> and a file
  name, or that lacks the \<^verbatim>\<open>bucket\<close> or the \<^verbatim>\<open>name\<close> field: the handler leaves the service
  in its state, makes no library call (no read, copy or delete) and announces no
  relocation. It returns normally exactly when line 29 splits the name, that is for a
  name that is absent, a string, or a list or dictionary without \<^verbatim>\<open>/\<close>; otherwise it
  raises what line 29 raises, before either filter.
\<close>

theorem non_match_makes_no_call:
  assumes "dict_get data ''bucket'' (PStr []) \<noteq> PStr SOURCE_BUCKET
           \<or> (\<forall>blob_path. split_blob_name (dict_get data ''name'' (PStr [])) \<noteq> Inr (SOURCE_FOLDER, blob_path))
           \<or> data ''bucket'' = None \<or> data ''name'' = None"
  shows "\<exists>r evs. handle_gcs_event_data srv data s = (r, s, evs)
           \<and> calls_of evs = [] \<and> relocations evs = []
           \<and> r = map_sum id (\<lambda>p. ()) (split_blob_name (dict_get data ''name'' (PStr [])))
           \<and> (r = Inr ()) =
               (case dict_get data ''name'' (PStr []) of
                  PStr n \<Rightarrow> True
                | PList vs \<Rightarrow> PStr ''/'' \<notin> set vs
                | PDict kvs \<Rightarrow> ''/'' \<notin> set (map fst kvs)
                | _ \<Rightarrow> False)
           \<and> (data ''name'' = None \<or> (\<exists>n. data ''name'' = Some (PStr n)) \<longrightarrow> r = Inr ())"
proof -
  let ?bucket = "dict_get data ''bucket'' (PStr [])"
  let ?blob = "dict_get data ''name'' (PStr [])"
  have nm: "?bucket \<noteq> PStr SOURCE_BUCKET
            \<or> (\<forall>blob_path. split_blob_name ?blob \<noteq> Inr (SOURCE_FOLDER, blob_path))"
    using assms
    by (auto simp: dict_get_def SOURCE_BUCKET_def SOURCE_FOLDER_def split_blob_name_def)
  have str: "data ''name'' = None \<or> (\<exists>n. data ''name'' = Some (PStr n)) \<Longrightarrow>
             \<exists>p. split_blob_name ?blob = Inr p"
    using split_blob_name_str by (auto simp: dict_get_def)
  note iff = split_blob_name_Inr_iff [of ?blob]
  show ?thesis
  proof (cases "split_blob_name ?blob")
    case (Inl e)
    with str have ns: "\<not> (data ''name'' = None \<or> (\<exists>n. data ''name'' = Some (PStr n)))"
      by fastforce
    from Inl iff have "\<not> (case ?blob of
                  PStr n \<Rightarrow> True
                | PList vs \<Rightarrow> PStr ''/'' \<notin> set vs
                | PDict kvs \<Rightarrow> ''/'' \<notin> set (map fst kvs)
                | _ \<Rightarrow> False)"
      by simp
    with Inl ns show ?thesis by (simp add: handle_split_fails)
  next
    case (Inr p)
    obtain folder_path blob_path where p: "p = (folder_path, blob_path)" by (cases p)
    from Inr p nm have "?bucket \<noteq> PStr SOURCE_BUCKET \<or> folder_path \<noteq> SOURCE_FOLDER" by auto
    from handle_non_match [OF Inr [unfolded p] this, of srv s] obtain evs where
      "handle_gcs_event_data srv data s = (Inr (), s, evs)" "calls_of evs = []" "relocations evs = []"
      by blast
    moreover from Inr iff have "case ?blob of
                  PStr n \<Rightarrow> True
                | PList vs \<Rightarrow> PStr ''/'' \<notin> set vs
                | PDict kvs \<Rightarrow> ''/'' \<notin> set (map fst kvs)
                | _ \<Rightarrow> False"
      by auto
    ultimately show ?thesis using Inr by simp
  qed
qed

theorem non_match_makes_no_call_witness:
  "dict_get [''bucket'' \<mapsto> PStr ''other-bucket'', ''name'' \<mapsto> PStr ''raw_data/replies.txt'']
     ''bucket'' (PStr []) \<noteq> PStr SOURCE_BUCKET
   \<and> fst (handle_gcs_event_data mem_gcs
          [''bucket'' \<mapsto> PStr ''other-bucket'', ''name'' \<mapsto> PStr ''raw_data/replies.txt'']
          \<lparr>objects = Map.empty, denied = []\<rparr>) = Inr ()
   \<and> calls_of (snd (snd (handle_gcs_event_data mem_gcs
          [''bucket'' \<mapsto> PStr ''other-bucket'', ''name'' \<mapsto> PStr ''raw_data/replies.txt'']
          \<lparr>objects = Map.empty, denied = []\<rparr>))) = []"
proof -
  let ?data = "[''bucket'' \<mapsto> PStr ''other-bucket'', ''name'' \<mapsto> PStr ''raw_data/replies.txt'']"
  have h: "dict_get ?data ''bucket'' (PStr []) \<noteq> PStr SOURCE_BUCKET"
    by (simp add: dict_get_def SOURCE_BUCKET_def)
  from non_match_makes_no_call [where data = ?data and srv = mem_gcs
      and s = "\<lparr>objects = Map.empty, denied = []\<rparr>", OF disjI1 [OF h]]
  obtain r evs where "handle_gcs_event_data mem_gcs ?data \<lparr>objects = Map.empty, denied = []\<rparr>
      = (r, \<lparr>objects = Map.empty, denied = []\<rparr>, evs)" "calls_of evs = []"
    "?data ''name'' = None \<or> (\<exists>n. ?data ''name'' = Some (PStr n)) \<longrightarrow> r = Inr ()"
    by blast
  with h show ?thesis by simp
qed

text \<open>
  The claim as stated fails: a notification for another bucket whose \<^verbatim>\<open>name\<close> is \<^verbatim>\<open>None\<close>
  does not return, it raises \<^verbatim>\<open>TypeError\<close> at line 29, before the bucket filter is reached
  (still without any library call).
\<close>

theorem non_match_raises_counterexample:
  "dict_get [''bucket'' \<mapsto> PStr ''other-bucket'', ''name'' \<mapsto> PNone] ''bucket'' (PStr [])
     \<noteq> PStr SOURCE_BUCKET
   \<and> handle_gcs_event_data mem_gcs [''bucket'' \<mapsto> PStr ''other-bucket'', ''name'' \<mapsto> PNone]
        \<lparr>objects = Map.empty, denied = []\<rparr>
     = (Inl TypeError, \<lparr>objects = Map.empty, denied = []\<rparr>, [])"
  by (simp add: handle_gcs_event_data_def dict_get_def split_blob_name_def SOURCE_BUCKET_def)

text \<open>
  C3, as amended. \<open>move_blob\<close> returns \<^verbatim>\<open>True\<close> only if its calls are the two bucket
  handles, the blob handle, the copy of the resolved source object to the resolved
  target bucket and object, and the delete of that source object, the copy and the
  delete answered without an exception and no call having raised; it returns \<^verbatim>\<open>True\<close>
  exactly when calls were made and none raised. When the delete raised, the copy of the
  source object to the target had succeeded before, the result is \<^verbatim>\<open>False\<close>, and the debug
  line of the completed copy and the error line of the failed move are logged. When no
  call at all was made (missing names, same location) the result is \<^verbatim>\<open>False\<close> as well,
  the service keeps its state, no relocation is announced and neither of these two lines
  is logged: the returned value is the same in both cases, the logged lines differ.
\<close>

theorem move_blob_result:
  assumes "move_blob srv self source_bucket source_blob target_bucket target_blob s = (ok, s', evs)"
  shows "(ok \<longrightarrow>
            (\<exists>sb sn copied deleted.
                fst (get_validated_names self source_bucket source_blob ''move_blob source'') = Some (sb, sn)
                \<and> calls_of evs =
                    [Client_bucket sb,
                     Client_bucket (py_or_str (py_or target_bucket (bucket_name self)) sb),
                     Bucket_blob sb sn,
                     Bucket_copy_blob sb sn
                       (py_or_str (py_or target_bucket (bucket_name self)) sb) (py_or_str target_blob sn),
                     Blob_delete sb sn]
                \<and> Call (Bucket_copy_blob sb sn
                       (py_or_str (py_or target_bucket (bucket_name self)) sb) (py_or_str target_blob sn))
                     (Inr copied) \<in> set evs
                \<and> Call (Blob_delete sb sn) (Inr deleted) \<in> set evs
                \<and> errors_of evs = []))
         \<and> ok = (calls_of evs \<noteq> [] \<and> errors_of evs = [])
         \<and> (\<forall>b n e. Call (Blob_delete b n) (Inl e) \<in> set evs \<longrightarrow>
               \<not> ok
               \<and> fst (get_validated_names self source_bucket source_blob ''move_blob source'') = Some (b, n)
               \<and> (\<exists>copied. Call (Bucket_copy_blob b n
                       (py_or_str (py_or target_bucket (bucket_name self)) b) (py_or_str target_blob n))
                     (Inr copied) \<in> set evs)
               \<and> Log DEBUG Copy_Completed \<in> set evs \<and> Log ERROR (Move_Failed e) \<in> set evs)
         \<and> (calls_of evs = [] \<longrightarrow>
               \<not> ok \<and> s' = s \<and> relocations evs = []
               \<and> Log DEBUG Copy_Completed \<notin> set evs \<and> (\<forall>e. Log ERROR (Move_Failed e) \<notin> set evs))"
proof -
  obtain r e1 where g: "get_validated_names self source_bucket source_blob ''move_blob source'' = (r, e1)"
    by (cases "get_validated_names self source_bucket source_blob ''move_blob source''")
  note l = get_validated_names_logs [OF g]
  show ?thesis
  proof (cases r)
    case None
    with g assms l show ?thesis by (auto simp: move_blob_def)
  next
    case (Some p)
    obtain sb sn where p: "p = (sb, sn)" by (cases p)
    let ?tb = "py_or_str (py_or target_bucket (bucket_name self)) sb"
    let ?tn = "py_or_str target_blob sn"
    from g Some p have gf: "fst (get_validated_names self source_bucket source_blob ''move_blob source'') = Some (sb, sn)"
      by simp
    show ?thesis
    proof (cases "sn = ?tn \<and> sb = ?tb")
      case True
      with g Some p assms have eq: "ok = False" "s' = s" "evs = e1 @ [Log WARNING Same_Location]"
        by (auto simp: move_blob_def Let_def)
      with l show ?thesis
        by (auto simp: calls_of_append errors_of_append relocations_append)
    next
      case False
      obtain ok2 s2 e2 where c: "copy_then_delete srv sb sn ?tb ?tn s = (ok2, s2, e2)"
        by (cases "copy_then_delete srv sb sn ?tb ?tn s") auto
      from g Some p False c assms
      have eq: "ok = ok2" "s' = s2" "evs = e1 @ [Log INFO (Moving sb sn ?tb ?tn)] @ e2"
        by (auto simp: move_blob_def Let_def)
      note r = copy_then_delete_result [OF c]
      note ie = copy_then_delete_ok_iff [OF c]
      have ce: "calls_of evs = calls_of e2" "errors_of evs = errors_of e2"
        using l eq by (simp_all add: calls_of_append errors_of_append)
      have 1: "ok \<longrightarrow>
            (\<exists>sb sn copied deleted.
                fst (get_validated_names self source_bucket source_blob ''move_blob source'') = Some (sb, sn)
                \<and> calls_of evs =
                    [Client_bucket sb,
                     Client_bucket (py_or_str (py_or target_bucket (bucket_name self)) sb),
                     Bucket_blob sb sn,
                     Bucket_copy_blob sb sn
                       (py_or_str (py_or target_bucket (bucket_name self)) sb) (py_or_str target_blob sn),
                     Blob_delete sb sn]
                \<and> Call (Bucket_copy_blob sb sn
                       (py_or_str (py_or target_bucket (bucket_name self)) sb) (py_or_str target_blob sn))
                     (Inr copied) \<in> set evs
                \<and> Call (Blob_delete sb sn) (Inr deleted) \<in> set evs
                \<and> errors_of evs = [])"
      proof
        assume ok
        with eq r(1) ce obtain copied deleted where
          "calls_of evs = [Client_bucket sb, Client_bucket ?tb, Bucket_blob sb sn,
                           Bucket_copy_blob sb sn ?tb ?tn, Blob_delete sb sn]"
          "errors_of evs = []"
          "Call (Bucket_copy_blob sb sn ?tb ?tn) (Inr copied) \<in> set evs"
          "Call (Blob_delete sb sn) (Inr deleted) \<in> set evs"
          by auto
        with gf show "\<exists>sb sn copied deleted.
                fst (get_validated_names self source_bucket source_blob ''move_blob source'') = Some (sb, sn)
                \<and> calls_of evs =
                    [Client_bucket sb,
                     Client_bucket (py_or_str (py_or target_bucket (bucket_name self)) sb),
                     Bucket_blob sb sn,
                     Bucket_copy_blob sb sn
                       (py_or_str (py_or target_bucket (bucket_name self)) sb) (py_or_str target_blob sn),
                     Blob_delete sb sn]
                \<and> Call (Bucket_copy_blob sb sn
                       (py_or_str (py_or target_bucket (bucket_name self)) sb) (py_or_str target_blob sn))
                     (Inr copied) \<in> set evs
                \<and> Call (Blob_delete sb sn) (Inr deleted) \<in> set evs
                \<and> errors_of evs = []"
          by blast
      qed
      have 2: "ok = (calls_of evs \<noteq> [] \<and> errors_of evs = [])"
        using r(3) ie eq(1) ce by simp
      have 3: "\<forall>b n e. Call (Blob_delete b n) (Inl e) \<in> set evs \<longrightarrow>
               \<not> ok
               \<and> fst (get_validated_names self source_bucket source_blob ''move_blob source'') = Some (b, n)
               \<and> (\<exists>copied. Call (Bucket_copy_blob b n
                       (py_or_str (py_or target_bucket (bucket_name self)) b) (py_or_str target_blob n))
                     (Inr copied) \<in> set evs)
               \<and> Log DEBUG Copy_Completed \<in> set evs \<and> Log ERROR (Move_Failed e) \<in> set evs"
      proof (intro allI impI)
        fix b n e
        assume "Call (Blob_delete b n) (Inl e) \<in> set evs"
        with l eq have d: "Call (Blob_delete b n) (Inl e) \<in> set e2" by auto
        from copy_then_delete_delete_fails [OF c d] gf eq
        show "\<not> ok
               \<and> fst (get_validated_names self source_bucket source_blob ''move_blob source'') = Some (b, n)
               \<and> (\<exists>copied. Call (Bucket_copy_blob b n
                       (py_or_str (py_or target_bucket (bucket_name self)) b) (py_or_str target_blob n))
                     (Inr copied) \<in> set evs)
               \<and> Log DEBUG Copy_Completed \<in> set evs \<and> Log ERROR (Move_Failed e) \<in> set evs"
          by auto
      qed
      have 4: "calls_of evs = [] \<longrightarrow>
               \<not> ok \<and> s' = s \<and> relocations evs = []
               \<and> Log DEBUG Copy_Completed \<notin> set evs \<and> (\<forall>e. Log ERROR (Move_Failed e) \<notin> set evs)"
        using r(3) ce by simp
      from 1 2 3 4 show ?thesis by blast
    qed
  qed
qed

theorem move_blob_result_witness:
  "Call (Blob_delete ''b'' ''raw_data/r.txt'') (Inl (ServiceError ''refused''))
     \<in> set (snd (snd (move_blob mem_gcs \<lparr>bucket_name = Some ''b'', blob_name = Some ''raw_data/r.txt''\<rparr>
          None None None (Some ''processed_data/r.txt'')
          \<lparr>objects = [(''b'', ''raw_data/r.txt'') \<mapsto> [116, 101, 120, 116]],
           denied = [Blob_delete ''b'' ''raw_data/r.txt'']\<rparr>)))
   \<and> \<not> fst (move_blob mem_gcs \<lparr>bucket_name = Some ''b'', blob_name = Some ''raw_data/r.txt''\<rparr>
          None None None (Some ''processed_data/r.txt'')
          \<lparr>objects = [(''b'', ''raw_data/r.txt'') \<mapsto> [116, 101, 120, 116]],
           denied = [Blob_delete ''b'' ''raw_data/r.txt'']\<rparr>)
   \<and> Log DEBUG Copy_Completed
     \<in> set (snd (snd (move_blob mem_gcs \<lparr>bucket_name = Some ''b'', blob_name = Some ''raw_data/r.txt''\<rparr>
          None None None (Some ''processed_data/r.txt'')
          \<lparr>objects = [(''b'', ''raw_data/r.txt'') \<mapsto> [116, 101, 120, 116]],
           denied = [Blob_delete ''b'' ''raw_data/r.txt'']\<rparr>)))
   \<and> fst (move_blob mem_gcs \<lparr>bucket_name = Some ''b'', blob_name = Some ''raw_data/r.txt''\<rparr>
          None None None (Some ''processed_data/r.txt'')
          \<lparr>objects = [(''b'', ''raw_data/r.txt'') \<mapsto> [116, 101, 120, 116]], denied = []\<rparr>)
   \<and> calls_of (snd (snd (move_blob mem_gcs \<lparr>bucket_name = Some ''b'', blob_name = Some ''raw_data/r.txt''\<rparr>
          None None None (Some ''processed_data/r.txt'')
          \<lparr>objects = [(''b'', ''raw_data/r.txt'') \<mapsto> [116, 101, 120, 116]], denied = []\<rparr>)))
     = [Client_bucket ''b'', Client_bucket ''b'', Bucket_blob ''b'' ''raw_data/r.txt'',
        Bucket_copy_blob ''b'' ''raw_data/r.txt'' ''b'' ''processed_data/r.txt'',
        Blob_delete ''b'' ''raw_data/r.txt'']
   \<and> calls_of (snd (snd (move_blob mem_gcs \<lparr>bucket_name = Some ''b'', blob_name = Some ''raw_data/r.txt''\<rparr>
          None None None None
          \<lparr>objects = [(''b'', ''raw_data/r.txt'') \<mapsto> [116, 101, 120, 116]],
           denied = [Blob_delete ''b'' ''raw_data/r.txt'']\<rparr>))) = []
   \<and> \<not> fst (move_blob mem_gcs \<lparr>bucket_name = Some ''b'', blob_name = Some ''raw_data/r.txt''\<rparr>
          None None None None
          \<lparr>objects = [(''b'', ''raw_data/r.txt'') \<mapsto> [116, 101, 120, 116]],
           denied = [Blob_delete ''b'' ''raw_data/r.txt'']\<rparr>)
   \<and> Log DEBUG Copy_Completed
     \<notin> set (snd (snd (move_blob mem_gcs \<lparr>bucket_name = Some ''b'', blob_name = Some ''raw_data/r.txt''\<rparr>
          None None None None
          \<lparr>objects = [(''b'', ''raw_data/r.txt'') \<mapsto> [116, 101, 120, 116]],
           denied = [Blob_delete ''b'' ''raw_data/r.txt'']\<rparr>)))"
proof -
  let ?self = "\<lparr>bucket_name = Some ''b'', blob_name = Some ''raw_data/r.txt''\<rparr>"
  let ?p = "move_blob mem_gcs ?self None None None (Some ''processed_data/r.txt'')
          \<lparr>objects = [(''b'', ''raw_data/r.txt'') \<mapsto> [116, 101, 120, 116]],
           denied = [Blob_delete ''b'' ''raw_data/r.txt'']\<rparr>"
  let ?q = "move_blob mem_gcs ?self None None None (Some ''processed_data/r.txt'')
          \<lparr>objects = [(''b'', ''raw_data/r.txt'') \<mapsto> [116, 101, 120, 116]], denied = []\<rparr>"
  let ?n = "move_blob mem_gcs ?self None None None None
          \<lparr>objects = [(''b'', ''raw_data/r.txt'') \<mapsto> [116, 101, 120, 116]],
           denied = [Blob_delete ''b'' ''raw_data/r.txt'']\<rparr>"
  have p: "?p = (fst ?p, fst (snd ?p), snd (snd ?p))" by simp
  have q: "?q = (fst ?q, fst (snd ?q), snd (snd ?q))" by simp
  have n: "?n = (fst ?n, fst (snd ?n), snd (snd ?n))" by simp
  have hp: "Call (Blob_delete ''b'' ''raw_data/r.txt'') (Inl (ServiceError ''refused'')) \<in> set (snd (snd ?p))"
    by (simp add: eval_defs)
  have hq: "fst ?q"
    by (simp add: eval_defs)
  have hn: "calls_of (snd (snd ?n)) = []"
    by (simp add: eval_defs)
  have g: "fst (get_validated_names ?self None None ''move_blob source'') = Some (''b'', ''raw_data/r.txt'')"
    by (simp add: get_validated_names_fst py_or_def truthy_def)
  have t: "py_or_str (py_or None (bucket_name ?self)) ''b'' = ''b''"
    "py_or_str (Some ''processed_data/r.txt'') ''raw_data/r.txt'' = ''processed_data/r.txt''"
    by (simp_all add: py_or_def truthy_def py_or_str_def)
  from move_blob_result [OF p] hp
  have rp: "\<not> fst ?p \<and> Log DEBUG Copy_Completed \<in> set (snd (snd ?p))"
    by blast
  from move_blob_result [OF q] hq g
  have rq: "calls_of (snd (snd ?q))
     = [Client_bucket ''b'', Client_bucket (py_or_str (py_or None (bucket_name ?self)) ''b''),
        Bucket_blob ''b'' ''raw_data/r.txt'',
        Bucket_copy_blob ''b'' ''raw_data/r.txt'' (py_or_str (py_or None (bucket_name ?self)) ''b'')
          (py_or_str (Some ''processed_data/r.txt'') ''raw_data/r.txt''),
        Blob_delete ''b'' ''raw_data/r.txt'']"
    by force
  from move_blob_result [OF n] hn
  have rn: "\<not> fst ?n \<and> Log DEBUG Copy_Completed \<notin> set (snd (snd ?n))"
    by blast
  from hp rp hq rq [unfolded t] hn rn show ?thesis by blast
qed

text \<open>
  The claim as stated fails: with the delete refused after a copy that succeeded (the
  object now is at the target too), \<open>move_blob\<close> returns the very value it returns for
  a move onto itself, where nothing was attempted.
\<close>

theorem partial_relocation_counterexample:
  "fst (move_blob mem_gcs \<lparr>bucket_name = Some ''b'', blob_name = Some ''raw_data/r.txt''\<rparr>
          None None None (Some ''processed_data/r.txt'')
          \<lparr>objects = [(''b'', ''raw_data/r.txt'') \<mapsto> [116, 101, 120, 116]],
           denied = [Blob_delete ''b'' ''raw_data/r.txt'']\<rparr>)
   = fst (move_blob mem_gcs \<lparr>bucket_name = Some ''b'', blob_name = Some ''raw_data/r.txt''\<rparr>
          None None None None
          \<lparr>objects = [(''b'', ''raw_data/r.txt'') \<mapsto> [116, 101, 120, 116]],
           denied = [Blob_delete ''b'' ''raw_data/r.txt'']\<rparr>)
   \<and> objects (fst (snd (move_blob mem_gcs \<lparr>bucket_name = Some ''b'', blob_name = Some ''raw_data/r.txt''\<rparr>
          None None None (Some ''processed_data/r.txt'')
          \<lparr>objects = [(''b'', ''raw_data/r.txt'') \<mapsto> [116, 101, 120, 116]],
           denied = [Blob_delete ''b'' ''raw_data/r.txt'']\<rparr>))) (''b'', ''processed_data/r.txt'') = Some [116, 101, 120, 116]
   \<and> calls_of (snd (snd (move_blob mem_gcs \<lparr>bucket_name = Some ''b'', blob_name = Some ''raw_data/r.txt''\<rparr>
          None None None None
          \<lparr>objects = [(''b'', ''raw_data/r.txt'') \<mapsto> [116, 101, 120, 116]],
           denied = [Blob_delete ''b'' ''raw_data/r.txt'']\<rparr>))) = []"
  by (simp add: eval_defs)

text \<open>
  C4. A call of \<open>move_blob\<close> whose source names resolve and whose resolved target bucket
  and object equal them returns \<^verbatim>\<open>False\<close> at once: the service keeps its state, no
  library call is made (no copy, no delete), no relocation is announced, and the
  warning of the same-location check is logged.
\<close>

theorem self_move_is_rejected:
  assumes "fst (get_validated_names self source_bucket source_blob ''move_blob source'') = Some (sb, sn)"
    and "py_or_str (py_or target_bucket (bucket_name self)) sb = sb"
    and "py_or_str target_blob sn = sn"
  shows "\<exists>evs. move_blob srv self source_bucket source_blob target_bucket target_blob s = (False, s, evs)
           \<and> calls_of evs = [] \<and> relocations evs = [] \<and> Log WARNING Same_Location \<in> set evs"
proof -
  obtain r e1 where g: "get_validated_names self source_bucket source_blob ''move_blob source'' = (r, e1)"
    by (cases "get_validated_names self source_bucket source_blob ''move_blob source''")
  with assms(1) have r: "r = Some (sb, sn)" by simp
  from get_validated_names_logs [OF g] have "calls_of e1 = []" "relocations e1 = []" by simp_all
  with g r assms(2,3) show ?thesis
    by (simp add: move_blob_def Let_def calls_of_append relocations_append)
qed

theorem self_move_is_rejected_witness:
  "fst (get_validated_names \<lparr>bucket_name = Some ''b'', blob_name = Some ''raw_data/r.txt''\<rparr>
          None None ''move_blob source'') = Some (''b'', ''raw_data/r.txt'')
   \<and> py_or_str (py_or None (bucket_name \<lparr>bucket_name = Some ''b'', blob_name = Some ''raw_data/r.txt''\<rparr>)) ''b'' = ''b''
   \<and> py_or_str None ''raw_data/r.txt'' = ''raw_data/r.txt''
   \<and> fst (move_blob mem_gcs \<lparr>bucket_name = Some ''b'', blob_name = Some ''raw_data/r.txt''\<rparr>
            None None None None
            \<lparr>objects = [(''b'', ''raw_data/r.txt'') \<mapsto> [116, 101, 120, 116]], denied = []\<rparr>) = False
   \<and> calls_of (snd (snd (move_blob mem_gcs \<lparr>bucket_name = Some ''b'', blob_name = Some ''raw_data/r.txt''\<rparr>
            None None None None
            \<lparr>objects = [(''b'', ''raw_data/r.txt'') \<mapsto> [116, 101, 120, 116]], denied = []\<rparr>))) = []"
proof -
  let ?self = "\<lparr>bucket_name = Some ''b'', blob_name = Some ''raw_data/r.txt''\<rparr>"
  have h1: "fst (get_validated_names ?self None None ''move_blob source'') = Some (''b'', ''raw_data/r.txt'')"
    by (simp add: get_validated_names_fst py_or_def truthy_def)
  have h2: "py_or_str (py_or None (bucket_name ?self)) ''b'' = ''b''"
    by (simp add: py_or_def truthy_def py_or_str_def)
  have h3: "py_or_str None ''raw_data/r.txt'' = ''raw_data/r.txt''"
    by (simp add: py_or_str_def)
  from self_move_is_rejected [OF h1 h2 h3, where srv = mem_gcs
      and s = "\<lparr>objects = [(''b'', ''raw_data/r.txt'') \<mapsto> [116, 101, 120, 116]], denied = []\<rparr>"]
  obtain evs where "move_blob mem_gcs ?self None None None None
      \<lparr>objects = [(''b'', ''raw_data/r.txt'') \<mapsto> [116, 101, 120, 116]], denied = []\<rparr>
      = (False, \<lparr>objects = [(''b'', ''raw_data/r.txt'') \<mapsto> [116, 101, 120, 116]], denied = []\<rparr>, evs)"
    and "calls_of evs = []" by blast
  with h1 h2 h3 show ?thesis by simp
qed

text \<open>
  C5. A qualifying notification whose content fetch returns no content: the handler
  returns normally, logs the error of the failed retrieval, announces no relocation and
  makes no copy and no delete call; the service is left in the state in which the fetch
  left it, which is the state before the invocation for every service whose state
  changes only through copies and deletes.
\<close>

theorem fetch_failure_stops_processing:
  assumes "dict_get data ''bucket'' (PStr []) = PStr SOURCE_BUCKET"
    and "dict_get data ''name'' (PStr []) = PStr n"
    and "split_blob_name (PStr n) = Inr (SOURCE_FOLDER, blob_path)"
    and "GCSClient_init srv (Some SOURCE_BUCKET) (Some n) s = (Inr gcs_client, s1, e1)"
    and "get_blob_content srv gcs_client None None ''utf-8'' s1 = (None, s2, e2)"
  shows "\<exists>evs. handle_gcs_event_data srv data s = (Inr (), s2, evs)
           \<and> Log ERROR Failed_To_Retrieve \<in> set evs
           \<and> relocations evs = []
           \<and> filter is_mutation (calls_of evs) = []
           \<and> ((\<forall>c t. \<not> is_mutation c \<longrightarrow> snd (srv c t) = t) \<longrightarrow> s2 = s)"
proof -
  from validated_names_are_strings [OF assms(3)] obtain f where f: "blob_path = PStr f" by auto
  note i = GCSClient_init_Inr [OF assms(4)]
  note c = get_blob_content_events [OF assms(5)]
  let ?evs = "[Log INFO (Received_Event (PStr SOURCE_BUCKET) (PStr n)),
               Log DEBUG (Folder_Path_Check SOURCE_FOLDER), Log INFO (Validated_File SOURCE_BUCKET n)]
              @ e1 @ e2 @ [Log ERROR Failed_To_Retrieve, Log INFO Finished_Handling]"
  have h: "handle_gcs_event_data srv data s = (Inr (), s2, ?evs)"
    using assms(3,4,5) f
    by (simp add: handle_qualifying [OF assms(1,2)] process_validated_def)
  have r: "relocations ?evs = []" using i c by (simp add: relocations_append)
  have m: "filter is_mutation (calls_of ?evs) = []" using i c by (simp add: calls_of_append)
  have fr: "(\<forall>c t. \<not> is_mutation c \<longrightarrow> snd (srv c t) = t) \<longrightarrow> s2 = s"
  proof
    assume a: "\<forall>c t. \<not> is_mutation c \<longrightarrow> snd (srv c t) = t"
    from get_blob_content_frame [OF a assms(5)] have "s2 = s1" .
    moreover from i a have "s1 = s" by simp
    ultimately show "s2 = s" by simp
  qed
  from h r m fr show ?thesis by simp
qed

theorem fetch_failure_stops_processing_witness:
  "dict_get [''bucket'' \<mapsto> PStr SOURCE_BUCKET, ''name'' \<mapsto> PStr ''raw_data/replies.txt''] ''bucket'' (PStr [])
     = PStr SOURCE_BUCKET
   \<and> dict_get [''bucket'' \<mapsto> PStr SOURCE_BUCKET, ''name'' \<mapsto> PStr ''raw_data/replies.txt''] ''name'' (PStr [])
     = PStr ''raw_data/replies.txt''
   \<and> split_blob_name (PStr ''raw_data/replies.txt'') = Inr (SOURCE_FOLDER, PStr ''replies.txt'')
   \<and> fst (GCSClient_init mem_gcs (Some SOURCE_BUCKET) (Some ''raw_data/replies.txt'')
          \<lparr>objects = Map.empty, denied = []\<rparr>)
     = Inr \<lparr>bucket_name = Some SOURCE_BUCKET, blob_name = Some ''raw_data/replies.txt''\<rparr>
   \<and> fst (get_blob_content mem_gcs \<lparr>bucket_name = Some SOURCE_BUCKET, blob_name = Some ''raw_data/replies.txt''\<rparr>
          None None ''utf-8'' \<lparr>objects = Map.empty, denied = []\<rparr>) = None
   \<and> (\<exists>evs. handle_gcs_event_data mem_gcs
          [''bucket'' \<mapsto> PStr SOURCE_BUCKET, ''name'' \<mapsto> PStr ''raw_data/replies.txt'']
          \<lparr>objects = Map.empty, denied = []\<rparr> = (Inr (), \<lparr>objects = Map.empty, denied = []\<rparr>, evs)
        \<and> Log ERROR Failed_To_Retrieve \<in> set evs
        \<and> relocations evs = []
        \<and> filter is_mutation (calls_of evs) = [])"
proof -
  let ?data = "[''bucket'' \<mapsto> PStr SOURCE_BUCKET, ''name'' \<mapsto> PStr ''raw_data/replies.txt'']"
  let ?s = "\<lparr>objects = Map.empty, denied = []\<rparr>"
  let ?cl = "\<lparr>bucket_name = Some SOURCE_BUCKET, blob_name = Some ''raw_data/replies.txt''\<rparr>"
  let ?i = "GCSClient_init mem_gcs (Some SOURCE_BUCKET) (Some ''raw_data/replies.txt'') ?s"
  let ?g = "get_blob_content mem_gcs ?cl None None ''utf-8'' ?s"
  have h1: "dict_get ?data ''bucket'' (PStr []) = PStr SOURCE_BUCKET"
    by (simp add: dict_get_def)
  have h2: "dict_get ?data ''name'' (PStr []) = PStr ''raw_data/replies.txt''"
    by (simp add: dict_get_def)
  have h3: "split_blob_name (PStr ''raw_data/replies.txt'') = Inr (SOURCE_FOLDER, PStr ''replies.txt'')"
    by (simp add: split_blob_name_def rsplit1_def SOURCE_FOLDER_def)
  have i1: "fst ?i = Inr ?cl" and i2: "fst (snd ?i) = ?s"
    by (simp_all add: GCSClient_init_def invoke_def mem_gcs_def)
  have g1: "fst ?g = None" and g2: "fst (snd ?g) = ?s"
    by (simp_all add: eval_defs)
  have h4: "?i = (Inr ?cl, ?s, snd (snd ?i))"
    using i1 i2 by (metis prod.collapse)
  have h5: "?g = (None, ?s, snd (snd ?g))"
    using g1 g2 by (metis prod.collapse)
  from fetch_failure_stops_processing [OF h1 h2 h3 h4 h5]
  have "\<exists>evs. handle_gcs_event_data mem_gcs ?data ?s = (Inr (), ?s, evs)
        \<and> Log ERROR Failed_To_Retrieve \<in> set evs
        \<and> relocations evs = []
        \<and> filter is_mutation (calls_of evs) = []"
    by blast
  with h1 h2 h3 i1 g1 show ?thesis by blast
qed

text \<open>
  C6. The transform splits the content at the line feed, code point 10 (the pieces joined
  by line feeds give the content back, and no piece holds a line feed), and keeps, in
  their order and unchanged, exactly the pieces that hold a code point outside the white
  space of \<^verbatim>\<open>str.strip()\<close>. For \<^verbatim>\<open>"a\n\n b \n"\<close>, the code points 97, 10, 10, 32, 98, 32,
  10, that is \<^verbatim>\<open>["a", " b "]\<close>. The lines \<^verbatim>\<open>" \t "\<close>, \<^verbatim>\<open>"\u3000\xa0"\<close> and \<^verbatim>\<open>"\r"\<close> between
  \<^verbatim>\<open>"a"\<close> and \<^verbatim>\<open>"b"\<close> are dropped; the white space around and inside \<^verbatim>\<open>" x\ty "\<close> stays,
  and a line of the zero width space 0x200B, which is no white space, is kept.
\<close>

theorem raw_data_keeps_nonblank_lines:
  "join [10 :: nat] (split 10 content) = content
   \<and> (10 :: nat) \<notin> set (concat (split 10 content))
   \<and> raw_data content =
       filter (\<lambda>line. \<exists>c\<in>set line.
                 c \<notin> {9, 10, 11, 12, 13, 28, 29, 30, 31, 32, 0x85, 0xA0, 0x1680,
                  0x2000, 0x2001, 0x2002, 0x2003, 0x2004, 0x2005, 0x2006, 0x2007, 0x2008, 0x2009, 0x200A,
                  0x2028, 0x2029, 0x202F, 0x205F, 0x3000})
         (split 10 content)
   \<and> raw_data [97, 10, 10, 32, 98, 32, 10] = [[97], [32, 98, 32]]
   \<and> raw_data [97, 10, 32, 9, 32, 10, 0x3000, 0xA0, 10, 13, 10, 98] = [[97], [98]]
   \<and> raw_data [32, 120, 9, 121, 32, 10, 0x200B] = [[32, 120, 9, 121, 32], [0x200B]]"
proof -
  have a: "join [10 :: nat] (split 10 content) = content"
    by (rule join_split)
  have b: "(10 :: nat) \<notin> set (concat (split 10 content))"
    by (rule split_no_sep)
  have c: "raw_data content =
       filter (\<lambda>line. \<exists>c\<in>set line.
                 c \<notin> {9, 10, 11, 12, 13, 28, 29, 30, 31, 32, 0x85, 0xA0, 0x1680,
                  0x2000, 0x2001, 0x2002, 0x2003, 0x2004, 0x2005, 0x2006, 0x2007, 0x2008, 0x2009, 0x200A,
                  0x2028, 0x2029, 0x202F, 0x205F, 0x3000})
         (split 10 content)"
    unfolding raw_data_def strip_empty_iff newline_def list_all_iff isspace_def by simp
  have d: "raw_data [97, 10, 10, 32, 98, 32, 10] = [[97], [32, 98, 32]]"
    by (simp add: raw_data_def newline_def strip_def isspace_def)
  have e: "raw_data [97, 10, 32, 9, 32, 10, 0x3000, 0xA0, 10, 13, 10, 98] = [[97], [98]]"
    by (simp add: raw_data_def newline_def strip_def isspace_def)
  have f: "raw_data [32, 120, 9, 121, 32, 10, 0x200B] = [[32, 120, 9, 121, 32], [0x200B]]"
    by (simp add: raw_data_def newline_def strip_def isspace_def)
  from a b c d e f show ?thesis by blast
qed

text \<open>
  C7, as amended. On the in-memory service, with the object in \<open>SOURCE_FOLDER\<close> present
  and no call refused, the first delivery relocates the object. The same notification
  delivered again passes both filters, which read the notification only (the line of
  the validated file is logged, the line of the folder filter is not); it is the content
  fetch that fails, the source object being gone, so the error of the failed retrieval is
  logged, no relocation is announced, no copy and no delete call is made and the objects
  stay as the first delivery left them.
\<close>

theorem redelivery_stops_at_fetch:
  assumes "dict_get data ''bucket'' (PStr []) = PStr SOURCE_BUCKET"
    and "dict_get data ''name'' (PStr []) = PStr (SOURCE_FOLDER @ ''/'' @ f)"
    and "CHR ''/'' \<notin> set f"
    and "objects s (SOURCE_BUCKET, SOURCE_FOLDER @ ''/'' @ f) = Some text"
    and "denied s = []"
  shows "\<exists>s1 evs1 evs2.
           handle_gcs_event_data mem_gcs data s = (Inr (), s1, evs1)
         \<and> Log INFO Move_Successful \<in> set evs1
         \<and> objects s1 = ((objects s)((SOURCE_BUCKET, TARGET_FOLDER @ ''/'' @ f) \<mapsto> text))
                            ((SOURCE_BUCKET, SOURCE_FOLDER @ ''/'' @ f) := None)
         \<and> handle_gcs_event_data mem_gcs data s1 = (Inr (), s1, evs2)
         \<and> Log INFO (Validated_File SOURCE_BUCKET (SOURCE_FOLDER @ ''/'' @ f)) \<in> set evs2
         \<and> Log INFO (Ignoring_Blob (PStr (SOURCE_FOLDER @ ''/'' @ f))) \<notin> set evs2
         \<and> Call (Blob_open_read SOURCE_BUCKET (SOURCE_FOLDER @ ''/'' @ f) ''utf-8'')
                 (Inl (ServiceError ''not found'')) \<in> set evs2
         \<and> Log ERROR Failed_To_Retrieve \<in> set evs2
         \<and> relocations evs2 = []
         \<and> filter is_mutation (calls_of evs2) = []"
proof -
  from redelivery [OF assms] obtain s1 evs1 evs2 where
    h1: "handle_gcs_event_data mem_gcs data s = (Inr (), s1, evs1)"
    and m1: "Log INFO Move_Successful \<in> set evs1"
    and o1: "objects s1 = ((objects s)((SOURCE_BUCKET, TARGET_FOLDER @ ''/'' @ f) \<mapsto> text))
                            ((SOURCE_BUCKET, SOURCE_FOLDER @ ''/'' @ f) := None)"
    and h2: "handle_gcs_event_data mem_gcs data s1 = (Inr (), s1, evs2)"
    and e2: "evs2 =
              [Log INFO (Received_Event (PStr SOURCE_BUCKET) (PStr (SOURCE_FOLDER @ ''/'' @ f))),
               Log DEBUG (Folder_Path_Check SOURCE_FOLDER),
               Log INFO (Validated_File SOURCE_BUCKET (SOURCE_FOLDER @ ''/'' @ f)),
               Call Client_new (Inr []), Log DEBUG Client_Initialized,
               Log DEBUG (Validating_Names ''get_blob'' (Some SOURCE_BUCKET) (Some (SOURCE_FOLDER @ ''/'' @ f))),
               Call (Client_bucket SOURCE_BUCKET) (Inr []),
               Call (Bucket_blob SOURCE_BUCKET (SOURCE_FOLDER @ ''/'' @ f)) (Inr []),
               Log INFO (Reference_Created SOURCE_BUCKET (SOURCE_FOLDER @ ''/'' @ f)),
               Log DEBUG (Reading_Content (SOURCE_FOLDER @ ''/'' @ f) ''utf-8''),
               Call (Blob_open_read SOURCE_BUCKET (SOURCE_FOLDER @ ''/'' @ f) ''utf-8'')
                 (Inl (ServiceError ''not found'')),
               Log ERROR (Read_Failed (SOURCE_FOLDER @ ''/'' @ f) (ServiceError ''not found'')),
               Log ERROR Failed_To_Retrieve, Log INFO Finished_Handling]"
    by blast
  have "Log INFO (Validated_File SOURCE_BUCKET (SOURCE_FOLDER @ ''/'' @ f)) \<in> set evs2"
    "Log INFO (Ignoring_Blob (PStr (SOURCE_FOLDER @ ''/'' @ f))) \<notin> set evs2"
    "Call (Blob_open_read SOURCE_BUCKET (SOURCE_FOLDER @ ''/'' @ f) ''utf-8'')
                 (Inl (ServiceError ''not found'')) \<in> set evs2"
    "Log ERROR Failed_To_Retrieve \<in> set evs2"
    "relocations evs2 = []"
    "filter is_mutation (calls_of evs2) = []"
    unfolding e2 by simp_all
  with h1 m1 o1 h2 show ?thesis by blast
qed

theorem redelivery_stops_at_fetch_witness:
  "dict_get [''bucket'' \<mapsto> PStr SOURCE_BUCKET, ''name'' \<mapsto> PStr ''raw_data/replies.txt''] ''bucket'' (PStr [])
     = PStr SOURCE_BUCKET
   \<and> dict_get [''bucket'' \<mapsto> PStr SOURCE_BUCKET, ''name'' \<mapsto> PStr ''raw_data/replies.txt''] ''name'' (PStr [])
     = PStr (SOURCE_FOLDER @ ''/'' @ ''replies.txt'')
   \<and> CHR ''/'' \<notin> set ''replies.txt''
   \<and> objects \<lparr>objects = [(SOURCE_BUCKET, ''raw_data/replies.txt'') \<mapsto> [104, 105]], denied = []\<rparr>
        (SOURCE_BUCKET, SOURCE_FOLDER @ ''/'' @ ''replies.txt'') = Some [104, 105]
   \<and> denied \<lparr>objects = [(SOURCE_BUCKET, ''raw_data/replies.txt'') \<mapsto> [104, 105]], denied = []\<rparr> = []
   \<and> (\<exists>s1 evs1 evs2.
         handle_gcs_event_data mem_gcs
           [''bucket'' \<mapsto> PStr SOURCE_BUCKET, ''name'' \<mapsto> PStr ''raw_data/replies.txt'']
           \<lparr>objects = [(SOURCE_BUCKET, ''raw_data/replies.txt'') \<mapsto> [104, 105]], denied = []\<rparr>
           = (Inr (), s1, evs1)
       \<and> Log INFO Move_Successful \<in> set evs1
       \<and> handle_gcs_event_data mem_gcs
           [''bucket'' \<mapsto> PStr SOURCE_BUCKET, ''name'' \<mapsto> PStr ''raw_data/replies.txt''] s1
           = (Inr (), s1, evs2)
       \<and> Log ERROR Failed_To_Retrieve \<in> set evs2
       \<and> relocations evs2 = [])"
proof -
  let ?data = "[''bucket'' \<mapsto> PStr SOURCE_BUCKET, ''name'' \<mapsto> PStr ''raw_data/replies.txt'']"
  let ?s = "\<lparr>objects = [(SOURCE_BUCKET, ''raw_data/replies.txt'') \<mapsto> [104, 105]], denied = []\<rparr>"
  have h1: "dict_get ?data ''bucket'' (PStr []) = PStr SOURCE_BUCKET"
    by (simp add: dict_get_def)
  have h2: "dict_get ?data ''name'' (PStr []) = PStr (SOURCE_FOLDER @ ''/'' @ ''replies.txt'')"
    by (simp add: dict_get_def SOURCE_FOLDER_def)
  have h3: "CHR ''/'' \<notin> set ''replies.txt''" by simp
  have h4: "objects ?s (SOURCE_BUCKET, SOURCE_FOLDER @ ''/'' @ ''replies.txt'') = Some [104, 105]"
    by (simp add: SOURCE_FOLDER_def)
  have h5: "denied ?s = []" by simp
  from redelivery_stops_at_fetch [OF h1 h2 h3 h4 h5]
  have "\<exists>s1 evs1 evs2.
         handle_gcs_event_data mem_gcs ?data ?s = (Inr (), s1, evs1)
       \<and> Log INFO Move_Successful \<in> set evs1
       \<and> handle_gcs_event_data mem_gcs ?data s1 = (Inr (), s1, evs2)
       \<and> Log ERROR Failed_To_Retrieve \<in> set evs2
       \<and> relocations evs2 = []"
    by blast
  with h1 h2 h3 h4 h5 show ?thesis by blast
qed

text \<open>
  The claim as stated fails: on the second delivery the folder filter passes, and the
  handler goes on to construct the client and to attempt the read.
\<close>

theorem redelivery_passes_folder_filter_counterexample:
  "Log INFO (Validated_File SOURCE_BUCKET ''raw_data/replies.txt'')
     \<in> set (snd (snd (handle_gcs_event_data mem_gcs
          [''bucket'' \<mapsto> PStr SOURCE_BUCKET, ''name'' \<mapsto> PStr ''raw_data/replies.txt'']
          (fst (snd (handle_gcs_event_data mem_gcs
             [''bucket'' \<mapsto> PStr SOURCE_BUCKET, ''name'' \<mapsto> PStr ''raw_data/replies.txt'']
             \<lparr>objects = [(SOURCE_BUCKET, ''raw_data/replies.txt'') \<mapsto> [104, 105]], denied = []\<rparr>))))))
   \<and> Log INFO (Ignoring_Blob (PStr ''raw_data/replies.txt''))
     \<notin> set (snd (snd (handle_gcs_event_data mem_gcs
          [''bucket'' \<mapsto> PStr SOURCE_BUCKET, ''name'' \<mapsto> PStr ''raw_data/replies.txt'']
          (fst (snd (handle_gcs_event_data mem_gcs
             [''bucket'' \<mapsto> PStr SOURCE_BUCKET, ''name'' \<mapsto> PStr ''raw_data/replies.txt'']
             \<lparr>objects = [(SOURCE_BUCKET, ''raw_data/replies.txt'') \<mapsto> [104, 105]], denied = []\<rparr>))))))
   \<and> calls_of (snd (snd (handle_gcs_event_data mem_gcs
          [''bucket'' \<mapsto> PStr SOURCE_BUCKET, ''name'' \<mapsto> PStr ''raw_data/replies.txt'']
          (fst (snd (handle_gcs_event_data mem_gcs
             [''bucket'' \<mapsto> PStr SOURCE_BUCKET, ''name'' \<mapsto> PStr ''raw_data/replies.txt'']
             \<lparr>objects = [(SOURCE_BUCKET, ''raw_data/replies.txt'') \<mapsto> [104, 105]], denied = []\<rparr>))))))
     = [Client_new, Client_bucket SOURCE_BUCKET, Bucket_blob SOURCE_BUCKET ''raw_data/replies.txt'',
        Blob_open_read SOURCE_BUCKET ''raw_data/replies.txt'' ''utf-8'']"
proof -
  let ?data = "[''bucket'' \<mapsto> PStr SOURCE_BUCKET, ''name'' \<mapsto> PStr ''raw_data/replies.txt'']"
  let ?s = "\<lparr>objects = [(SOURCE_BUCKET, ''raw_data/replies.txt'') \<mapsto> [104, 105]], denied = []\<rparr>"
  have n: "SOURCE_FOLDER @ ''/'' @ ''replies.txt'' = ''raw_data/replies.txt''"
    by (simp add: SOURCE_FOLDER_def)
  have h1: "dict_get ?data ''bucket'' (PStr []) = PStr SOURCE_BUCKET"
    by (simp add: dict_get_def)
  have h2: "dict_get ?data ''name'' (PStr []) = PStr (SOURCE_FOLDER @ ''/'' @ ''replies.txt'')"
    by (simp add: dict_get_def SOURCE_FOLDER_def)
  have h3: "CHR ''/'' \<notin> set ''replies.txt''" by simp
  have h4: "objects ?s (SOURCE_BUCKET, SOURCE_FOLDER @ ''/'' @ ''replies.txt'') = Some [104, 105]"
    by (simp add: SOURCE_FOLDER_def)
  have h5: "denied ?s = []" by simp
  from redelivery [OF h1 h2 h3 h4 h5] obtain s1 evs1 where
    a: "handle_gcs_event_data mem_gcs ?data ?s = (Inr (), s1, evs1)"
    and b: "handle_gcs_event_data mem_gcs ?data s1 =
             (Inr (), s1,
              [Log INFO (Received_Event (PStr SOURCE_BUCKET) (PStr (SOURCE_FOLDER @ ''/'' @ ''replies.txt''))),
               Log DEBUG (Folder_Path_Check SOURCE_FOLDER),
               Log INFO (Validated_File SOURCE_BUCKET (SOURCE_FOLDER @ ''/'' @ ''replies.txt'')),
               Call Client_new (Inr []), Log DEBUG Client_Initialized,
               Log DEBUG (Validating_Names ''get_blob'' (Some SOURCE_BUCKET) (Some (SOURCE_FOLDER @ ''/'' @ ''replies.txt''))),
               Call (Client_bucket SOURCE_BUCKET) (Inr []),
               Call (Bucket_blob SOURCE_BUCKET (SOURCE_FOLDER @ ''/'' @ ''replies.txt'')) (Inr []),
               Log INFO (Reference_Created SOURCE_BUCKET (SOURCE_FOLDER @ ''/'' @ ''replies.txt'')),
               Log DEBUG (Reading_Content (SOURCE_FOLDER @ ''/'' @ ''replies.txt'') ''utf-8''),
               Call (Blob_open_read SOURCE_BUCKET (SOURCE_FOLDER @ ''/'' @ ''replies.txt'') ''utf-8'')
                 (Inl (ServiceError ''not found'')),
               Log ERROR (Read_Failed (SOURCE_FOLDER @ ''/'' @ ''replies.txt'') (ServiceError ''not found'')),
               Log ERROR Failed_To_Retrieve, Log INFO Finished_Handling])"
    by blast
  show ?thesis unfolding a fst_conv snd_conv b n by simp
qed

text \<open>
  C8, as amended. In \<open>get_blob\<close>, \<open>get_blob_content\<close> and for the source names of
  \<open>move_blob\<close>, an omitted bucket or object argument behaves as the instance default
  passed explicitly, and when after this defaulting the bucket or the object name is
  \<^verbatim>\<open>None\<close>, the operation returns \<^verbatim>\<open>None\<close> or \<^verbatim>\<open>False\<close> with the service in its state and
  without any library call. The target names of \<open>move_blob\<close> fall back further and never
  fail for being absent: an omitted target bucket behaves as the instance default bucket
  when that is set and not empty, and as the resolved source bucket otherwise (line 124);
  an omitted target object behaves as the resolved source object (line 125), not as the
  instance default. Once the source names resolve, \<open>move_blob\<close> makes no library call
  exactly when the resolved target equals the resolved source.
\<close>

theorem omitted_arguments_default:
  "get_blob srv self None blob s = get_blob srv self (bucket_name self) blob s
   \<and> get_blob srv self bucket None s = get_blob srv self bucket (blob_name self) s
   \<and> get_blob_content srv self None blob enc s = get_blob_content srv self (bucket_name self) blob enc s
   \<and> get_blob_content srv self bucket None enc s = get_blob_content srv self bucket (blob_name self) enc s
   \<and> move_blob srv self None blob tb tn s = move_blob srv self (bucket_name self) blob tb tn s
   \<and> move_blob srv self bucket None tb tn s = move_blob srv self bucket (blob_name self) tb tn s
   \<and> move_blob srv self bucket blob None tn s = move_blob srv self bucket blob (bucket_name self) tn s
   \<and> (\<forall>b n. fst (get_validated_names self bucket blob ''move_blob source'') = Some (b, n) \<longrightarrow>
         move_blob srv self bucket blob tb None s = move_blob srv self bucket blob tb (Some n) s)
   \<and> (py_or bucket (bucket_name self) = None \<or> py_or blob (blob_name self) = None \<longrightarrow>
         (\<exists>evs. get_blob srv self bucket blob s = (None, s, evs) \<and> calls_of evs = [])
       \<and> (\<exists>evs. get_blob_content srv self bucket blob enc s = (None, s, evs) \<and> calls_of evs = [])
       \<and> (\<exists>evs. move_blob srv self bucket blob tb tn s = (False, s, evs) \<and> calls_of evs = []))
   \<and> (\<forall>d. bucket_name self = Some d \<and> d \<noteq> [] \<longrightarrow>
         move_blob srv self bucket blob None tn s = move_blob srv self bucket blob (Some d) tn s)
   \<and> (\<forall>b n. fst (get_validated_names self bucket blob ''move_blob source'') = Some (b, n)
            \<and> (bucket_name self = None \<or> bucket_name self = Some []) \<longrightarrow>
         move_blob srv self bucket blob None tn s = move_blob srv self bucket blob (Some b) tn s)
   \<and> (\<forall>b n. fst (get_validated_names self bucket blob ''move_blob source'') = Some (b, n) \<longrightarrow>
         (calls_of (snd (snd (move_blob srv self bucket blob tb tn s))) = [])
           = (n = py_or_str tn n \<and> b = py_or_str (py_or tb (bucket_name self)) b))"
proof -
  have gvn1: "\<And>blob c. get_validated_names self None blob c = get_validated_names self (bucket_name self) blob c"
    by (simp add: get_validated_names_def py_or_simps)
  have gvn2: "\<And>bucket c. get_validated_names self bucket None c = get_validated_names self bucket (blob_name self) c"
    by (simp add: get_validated_names_def py_or_simps)
  have 1: "get_blob srv self None blob s = get_blob srv self (bucket_name self) blob s"
    by (simp add: get_blob_def gvn1)
  have 2: "get_blob srv self bucket None s = get_blob srv self bucket (blob_name self) s"
    by (simp add: get_blob_def gvn2)
  have 3: "get_blob_content srv self None blob enc s = get_blob_content srv self (bucket_name self) blob enc s"
    by (simp add: get_blob_content_def get_blob_def gvn1)
  have 4: "get_blob_content srv self bucket None enc s = get_blob_content srv self bucket (blob_name self) enc s"
    by (simp add: get_blob_content_def get_blob_def gvn2)
  have 5: "move_blob srv self None blob tb tn s = move_blob srv self (bucket_name self) blob tb tn s"
    by (simp add: move_blob_def gvn1)
  have 6: "move_blob srv self bucket None tb tn s = move_blob srv self bucket (blob_name self) tb tn s"
    by (simp add: move_blob_def gvn2)
  have 7: "move_blob srv self bucket blob None tn s = move_blob srv self bucket blob (bucket_name self) tn s"
    unfolding move_blob_def py_or_simps(1) py_or_simps(3) by (rule refl)
  have 8: "\<forall>b n. fst (get_validated_names self bucket blob ''move_blob source'') = Some (b, n) \<longrightarrow>
         move_blob srv self bucket blob tb None s = move_blob srv self bucket blob tb (Some n) s"
    by (auto simp: move_blob_def py_or_str_simps split: prod.splits option.splits)
  have 9: "py_or bucket (bucket_name self) = None \<or> py_or blob (blob_name self) = None \<longrightarrow>
         (\<exists>evs. get_blob srv self bucket blob s = (None, s, evs) \<and> calls_of evs = [])
       \<and> (\<exists>evs. get_blob_content srv self bucket blob enc s = (None, s, evs) \<and> calls_of evs = [])
       \<and> (\<exists>evs. move_blob srv self bucket blob tb tn s = (False, s, evs) \<and> calls_of evs = [])"
  proof
    assume a: "py_or bucket (bucket_name self) = None \<or> py_or blob (blob_name self) = None"
    from get_validated_names_None [OF a, of "''get_blob''"]
    obtain e1 where g1: "get_validated_names self bucket blob ''get_blob'' = (None, e1)" "calls_of e1 = []"
      by blast
    from get_validated_names_None [OF a, of "''move_blob source''"]
    obtain e2 where g2: "get_validated_names self bucket blob ''move_blob source'' = (None, e2)" "calls_of e2 = []"
      by blast
    from g1 g2 show "(\<exists>evs. get_blob srv self bucket blob s = (None, s, evs) \<and> calls_of evs = [])
       \<and> (\<exists>evs. get_blob_content srv self bucket blob enc s = (None, s, evs) \<and> calls_of evs = [])
       \<and> (\<exists>evs. move_blob srv self bucket blob tb tn s = (False, s, evs) \<and> calls_of evs = [])"
      by (simp add: get_blob_def get_blob_content_def move_blob_def calls_of_append)
  qed
  have 10: "\<forall>d. bucket_name self = Some d \<and> d \<noteq> [] \<longrightarrow>
         move_blob srv self bucket blob None tn s = move_blob srv self bucket blob (Some d) tn s"
    by (auto simp: move_blob_def py_or_def truthy_def Let_def split: prod.splits option.splits)
  have 11: "\<forall>b n. fst (get_validated_names self bucket blob ''move_blob source'') = Some (b, n)
            \<and> (bucket_name self = None \<or> bucket_name self = Some []) \<longrightarrow>
         move_blob srv self bucket blob None tn s = move_blob srv self bucket blob (Some b) tn s"
    by (auto simp: move_blob_def py_or_def truthy_def py_or_str_def split: prod.splits option.splits)
  have 12: "\<forall>b n. fst (get_validated_names self bucket blob ''move_blob source'') = Some (b, n) \<longrightarrow>
         (calls_of (snd (snd (move_blob srv self bucket blob tb tn s))) = [])
           = (n = py_or_str tn n \<and> b = py_or_str (py_or tb (bucket_name self)) b)"
  proof (intro allI impI)
    fix b n
    assume a: "fst (get_validated_names self bucket blob ''move_blob source'') = Some (b, n)"
    obtain r e1 where g: "get_validated_names self bucket blob ''move_blob source'' = (r, e1)"
      by (cases "get_validated_names self bucket blob ''move_blob source''")
    with a have r: "r = Some (b, n)" by simp
    from get_validated_names_logs [OF g] have e1: "calls_of e1 = []" by simp
    let ?tb = "py_or_str (py_or tb (bucket_name self)) b"
    let ?tn = "py_or_str tn n"
    obtain ok s2 e2 where c: "copy_then_delete srv b n ?tb ?tn s = (ok, s2, e2)"
      by (cases "copy_then_delete srv b n ?tb ?tn s") auto
    from copy_then_delete_result(3) [OF c] have "calls_of e2 \<noteq> []" .
    with g r e1 c
    show "(calls_of (snd (snd (move_blob srv self bucket blob tb tn s))) = [])
           = (n = ?tn \<and> b = ?tb)"
      by (simp add: move_blob_def Let_def calls_of_append)
  qed
  from 1 2 3 4 5 6 7 8 9 10 11 12 show ?thesis by blast
qed

theorem omitted_arguments_default_witness:
  "fst (get_validated_names \<lparr>bucket_name = Some ''b'', blob_name = Some ''y''\<rparr>
          None (Some ''x'') ''move_blob source'') = Some (''b'', ''x'')
   \<and> move_blob mem_gcs \<lparr>bucket_name = Some ''b'', blob_name = Some ''y''\<rparr> None (Some ''x'') (Some ''t'') None
        \<lparr>objects = [(''b'', ''x'') \<mapsto> [116, 101, 120, 116]], denied = []\<rparr>
     = move_blob mem_gcs \<lparr>bucket_name = Some ''b'', blob_name = Some ''y''\<rparr> None (Some ''x'') (Some ''t'') (Some ''x'')
        \<lparr>objects = [(''b'', ''x'') \<mapsto> [116, 101, 120, 116]], denied = []\<rparr>
   \<and> py_or None (bucket_name \<lparr>bucket_name = None, blob_name = Some ''y''\<rparr>) = None
   \<and> (\<exists>evs. get_blob_content mem_gcs \<lparr>bucket_name = None, blob_name = Some ''y''\<rparr> None None ''utf-8''
               \<lparr>objects = [(''b'', ''x'') \<mapsto> [116, 101, 120, 116]], denied = []\<rparr>
             = (None, \<lparr>objects = [(''b'', ''x'') \<mapsto> [116, 101, 120, 116]], denied = []\<rparr>, evs) \<and> calls_of evs = [])
   \<and> (\<exists>evs. move_blob mem_gcs \<lparr>bucket_name = None, blob_name = Some ''y''\<rparr> None None None (Some ''z'')
               \<lparr>objects = [(''b'', ''x'') \<mapsto> [116, 101, 120, 116]], denied = []\<rparr>
             = (False, \<lparr>objects = [(''b'', ''x'') \<mapsto> [116, 101, 120, 116]], denied = []\<rparr>, evs) \<and> calls_of evs = [])
   \<and> bucket_name \<lparr>bucket_name = Some ''b'', blob_name = Some ''y''\<rparr> = Some ''b''
   \<and> move_blob mem_gcs \<lparr>bucket_name = Some ''b'', blob_name = Some ''y''\<rparr> None (Some ''x'') None (Some ''z'')
        \<lparr>objects = [(''b'', ''x'') \<mapsto> [116, 101, 120, 116]], denied = []\<rparr>
     = move_blob mem_gcs \<lparr>bucket_name = Some ''b'', blob_name = Some ''y''\<rparr> None (Some ''x'') (Some ''b'') (Some ''z'')
        \<lparr>objects = [(''b'', ''x'') \<mapsto> [116, 101, 120, 116]], denied = []\<rparr>
   \<and> fst (get_validated_names \<lparr>bucket_name = None, blob_name = Some ''y''\<rparr>
          (Some ''s'') (Some ''x'') ''move_blob source'') = Some (''s'', ''x'')
   \<and> bucket_name \<lparr>bucket_name = None, blob_name = Some ''y''\<rparr> = None
   \<and> move_blob mem_gcs \<lparr>bucket_name = None, blob_name = Some ''y''\<rparr> (Some ''s'') (Some ''x'') None (Some ''z'')
        \<lparr>objects = [(''b'', ''x'') \<mapsto> [116, 101, 120, 116]], denied = []\<rparr>
     = move_blob mem_gcs \<lparr>bucket_name = None, blob_name = Some ''y''\<rparr> (Some ''s'') (Some ''x'') (Some ''s'') (Some ''z'')
        \<lparr>objects = [(''b'', ''x'') \<mapsto> [116, 101, 120, 116]], denied = []\<rparr>
   \<and> calls_of (snd (snd (move_blob mem_gcs \<lparr>bucket_name = None, blob_name = Some ''y''\<rparr> (Some ''s'') (Some ''x'') None (Some ''z'')
        \<lparr>objects = [(''b'', ''x'') \<mapsto> [116, 101, 120, 116]], denied = []\<rparr>))) \<noteq> []"
proof -
  let ?s = "\<lparr>objects = [(''b'', ''x'') \<mapsto> [116, 101, 120, 116]], denied = []\<rparr>"
  let ?A = "\<lparr>bucket_name = Some ''b'', blob_name = Some ''y''\<rparr>"
  let ?B = "\<lparr>bucket_name = None, blob_name = Some ''y''\<rparr>"
  have h1: "fst (get_validated_names ?A None (Some ''x'') ''move_blob source'') = Some (''b'', ''x'')"
    by (simp add: get_validated_names_fst py_or_def truthy_def)
  have h2: "py_or None (bucket_name ?B) = None"
    by (simp add: py_or_def truthy_def)
  have h3: "bucket_name ?A = Some ''b''" by simp
  have h4: "fst (get_validated_names ?B (Some ''s'') (Some ''x'') ''move_blob source'') = Some (''s'', ''x'')"
    by (simp add: get_validated_names_fst py_or_def truthy_def)
  have h5: "bucket_name ?B = None" by simp
  have h6: "\<not> (''x'' = py_or_str (Some ''z'') ''x'' \<and> ''s'' = py_or_str (py_or None (bucket_name ?B)) ''s'')"
    by (simp add: py_or_str_def)
  note a = omitted_arguments_default [where srv = mem_gcs and s = ?s and bucket = None
      and blob = "Some ''x''" and self = ?A and tb = "Some ''t''"]
  note b = omitted_arguments_default [where srv = mem_gcs and s = ?s and bucket = None
      and blob = None and self = ?B
      and tb = None and tn = "Some ''z''" and enc = "''utf-8''"]
  note c = omitted_arguments_default [where srv = mem_gcs and s = ?s and bucket = None
      and blob = "Some ''x''" and self = ?A and tb = None and tn = "Some ''z''"]
  note d = omitted_arguments_default [where srv = mem_gcs and s = ?s and bucket = "Some ''s''"
      and blob = "Some ''x''" and self = ?B and tb = None and tn = "Some ''z''"]
  from a h1 have c1: "move_blob mem_gcs ?A None (Some ''x'') (Some ''t'') None ?s
     = move_blob mem_gcs ?A None (Some ''x'') (Some ''t'') (Some ''x'') ?s"
    by blast
  from b h2 have c2: "(\<exists>evs. get_blob_content mem_gcs ?B None None ''utf-8'' ?s
             = (None, ?s, evs) \<and> calls_of evs = [])
   \<and> (\<exists>evs. move_blob mem_gcs ?B None None None (Some ''z'') ?s
             = (False, ?s, evs) \<and> calls_of evs = [])"
    by blast
  from c h3 have c3: "move_blob mem_gcs ?A None (Some ''x'') None (Some ''z'') ?s
     = move_blob mem_gcs ?A None (Some ''x'') (Some ''b'') (Some ''z'') ?s"
    by blast
  from d h4 h5 have c4: "move_blob mem_gcs ?B (Some ''s'') (Some ''x'') None (Some ''z'') ?s
     = move_blob mem_gcs ?B (Some ''s'') (Some ''x'') (Some ''s'') (Some ''z'') ?s"
    by blast
  from d h4 h6 have c5: "calls_of (snd (snd (move_blob mem_gcs ?B (Some ''s'') (Some ''x'') None (Some ''z'') ?s))) \<noteq> []"
    by blast
  from h1 h2 h3 h4 h5 c1 c2 c3 c4 c5 show ?thesis by blast
qed

text \<open>
  The claim as stated fails for the target object: with the instance default \<^verbatim>\<open>y\<close> and
  the source object \<^verbatim>\<open>x\<close> given, the omitted target object resolves to \<^verbatim>\<open>x\<close>, while
  passing the instance default relocates to \<^verbatim>\<open>y\<close>.
\<close>

theorem omitted_target_object_counterexample:
  "relocations (snd (snd (move_blob mem_gcs \<lparr>bucket_name = Some ''b'', blob_name = Some ''y''\<rparr>
        None (Some ''x'') (Some ''t'') None
        \<lparr>objects = [(''b'', ''x'') \<mapsto> [116, 101, 120, 116]], denied = []\<rparr>)))
     = [((''b'', ''x''), (''t'', ''x''))]
   \<and> relocations (snd (snd (move_blob mem_gcs \<lparr>bucket_name = Some ''b'', blob_name = Some ''y''\<rparr>
        None (Some ''x'') (Some ''t'') (blob_name \<lparr>bucket_name = Some ''b'', blob_name = Some ''y''\<rparr>)
        \<lparr>objects = [(''b'', ''x'') \<mapsto> [116, 101, 120, 116]], denied = []\<rparr>)))
     = [((''b'', ''x''), (''t'', ''y''))]"
  by (simp add: eval_defs)




text \<open>
  C10, as amended. In every argument position of \<open>get_blob\<close>, \<open>get_blob_content\<close> and
  \<open>move_blob\<close>, the empty string behaves exactly as the omitted argument. With empty
  bucket and object arguments the names resolve to the instance defaults, and to absent
  exactly when one of the defaults is unset. The empty target object of \<open>move_blob\<close>
  resolves to the resolved source object, whatever the instance default.
\<close>

theorem empty_string_arguments:
  "get_blob srv self (Some []) blob s = get_blob srv self None blob s
   \<and> get_blob srv self bucket (Some []) s = get_blob srv self bucket None s
   \<and> get_blob_content srv self (Some []) blob enc s = get_blob_content srv self None blob enc s
   \<and> get_blob_content srv self bucket (Some []) enc s = get_blob_content srv self bucket None enc s
   \<and> move_blob srv self (Some []) blob tb tn s = move_blob srv self None blob tb tn s
   \<and> move_blob srv self bucket (Some []) tb tn s = move_blob srv self bucket None tb tn s
   \<and> move_blob srv self bucket blob (Some []) tn s = move_blob srv self bucket blob None tn s
   \<and> move_blob srv self bucket blob tb (Some []) s = move_blob srv self bucket blob tb None s
   \<and> fst (get_validated_names self (Some []) (Some []) ctx)
       = (case bucket_name self of
            None \<Rightarrow> None
          | Some b \<Rightarrow> (case blob_name self of None \<Rightarrow> None | Some n \<Rightarrow> Some (b, n)))
   \<and> (\<forall>b n. fst (get_validated_names self bucket blob ''move_blob source'') = Some (b, n) \<longrightarrow>
         move_blob srv self bucket blob tb (Some []) s = move_blob srv self bucket blob tb (Some n) s)"
proof -
  have gvn1: "\<And>blob c. get_validated_names self (Some []) blob c = get_validated_names self None blob c"
    by (simp add: get_validated_names_def py_or_simps)
  have gvn2: "\<And>bucket c. get_validated_names self bucket (Some []) c = get_validated_names self bucket None c"
    by (simp add: get_validated_names_def py_or_simps)
  have 1: "get_blob srv self (Some []) blob s = get_blob srv self None blob s"
    by (simp add: get_blob_def gvn1)
  have 2: "get_blob srv self bucket (Some []) s = get_blob srv self bucket None s"
    by (simp add: get_blob_def gvn2)
  have 3: "get_blob_content srv self (Some []) blob enc s = get_blob_content srv self None blob enc s"
    by (simp add: get_blob_content_def get_blob_def gvn1)
  have 4: "get_blob_content srv self bucket (Some []) enc s = get_blob_content srv self bucket None enc s"
    by (simp add: get_blob_content_def get_blob_def gvn2)
  have 5: "move_blob srv self (Some []) blob tb tn s = move_blob srv self None blob tb tn s"
    by (simp add: move_blob_def gvn1)
  have 6: "move_blob srv self bucket (Some []) tb tn s = move_blob srv self bucket None tb tn s"
    by (simp add: move_blob_def gvn2)
  have 7: "move_blob srv self bucket blob (Some []) tn s = move_blob srv self bucket blob None tn s"
    unfolding move_blob_def py_or_simps(1) py_or_simps(2) by (rule refl)
  have 8: "move_blob srv self bucket blob tb (Some []) s = move_blob srv self bucket blob tb None s"
    unfolding move_blob_def py_or_str_simps(1) py_or_str_simps(2) by (rule refl)
  have 9: "fst (get_validated_names self (Some []) (Some []) ctx)
       = (case bucket_name self of
            None \<Rightarrow> None
          | Some b \<Rightarrow> (case blob_name self of None \<Rightarrow> None | Some n \<Rightarrow> Some (b, n)))"
    unfolding get_validated_names_fst py_or_simps(2) by (rule refl)
  have 10: "\<forall>b n. fst (get_validated_names self bucket blob ''move_blob source'') = Some (b, n) \<longrightarrow>
         move_blob srv self bucket blob tb (Some []) s = move_blob srv self bucket blob tb (Some n) s"
    by (auto simp: move_blob_def py_or_str_simps split: prod.splits option.splits)
  from 1 2 3 4 5 6 7 8 9 10 show ?thesis by blast
qed

theorem empty_string_arguments_witness:
  "fst (get_validated_names \<lparr>bucket_name = Some ''b'', blob_name = Some ''y''\<rparr>
          None (Some ''x'') ''move_blob source'') = Some (''b'', ''x'')
   \<and> move_blob mem_gcs \<lparr>bucket_name = Some ''b'', blob_name = Some ''y''\<rparr> None (Some ''x'') None (Some [])
        \<lparr>objects = [(''b'', ''x'') \<mapsto> [116, 101, 120, 116]], denied = []\<rparr>
     = move_blob mem_gcs \<lparr>bucket_name = Some ''b'', blob_name = Some ''y''\<rparr> None (Some ''x'') None (Some ''x'')
        \<lparr>objects = [(''b'', ''x'') \<mapsto> [116, 101, 120, 116]], denied = []\<rparr>
   \<and> fst (get_validated_names \<lparr>bucket_name = Some ''b'', blob_name = Some ''y''\<rparr>
          (Some []) (Some []) ''get_blob'') = Some (''b'', ''y'')"
proof -
  let ?s = "\<lparr>objects = [(''b'', ''x'') \<mapsto> [116, 101, 120, 116]], denied = []\<rparr>"
  let ?self = "\<lparr>bucket_name = Some ''b'', blob_name = Some ''y''\<rparr>"
  have h1: "fst (get_validated_names ?self None (Some ''x'') ''move_blob source'') = Some (''b'', ''x'')"
    by (simp add: get_validated_names_fst py_or_def truthy_def)
  note a = empty_string_arguments [where srv = mem_gcs and s = ?s and bucket = None
      and blob = "Some ''x''" and self = ?self and tb = None and ctx = "''get_blob''"]
  from a h1 have c1: "move_blob mem_gcs ?self None (Some ''x'') None (Some []) ?s
     = move_blob mem_gcs ?self None (Some ''x'') None (Some ''x'') ?s"
    by blast
  from a have c2: "fst (get_validated_names ?self (Some []) (Some []) ''get_blob'') = Some (''b'', ''y'')"
    by simp
  from h1 c1 c2 show ?thesis by blast
qed

text \<open>
  The claim as stated fails for the target object: with the instance default \<^verbatim>\<open>y\<close> set
  and the source object \<^verbatim>\<open>x\<close> given, the empty target object resolves to \<^verbatim>\<open>x\<close>, the
  move is onto itself and nothing happens, while the instance default as target
  relocates \<^verbatim>\<open>x\<close> to \<^verbatim>\<open>y\<close>.
\<close>

theorem empty_target_object_counterexample:
  "fst (move_blob mem_gcs \<lparr>bucket_name = Some ''b'', blob_name = Some ''y''\<rparr>
        None (Some ''x'') None (Some [])
        \<lparr>objects = [(''b'', ''x'') \<mapsto> [116, 101, 120, 116]], denied = []\<rparr>) = False
   \<and> relocations (snd (snd (move_blob mem_gcs \<lparr>bucket_name = Some ''b'', blob_name = Some ''y''\<rparr>
        None (Some ''x'') None (Some [])
        \<lparr>objects = [(''b'', ''x'') \<mapsto> [116, 101, 120, 116]], denied = []\<rparr>))) = []
   \<and> fst (move_blob mem_gcs \<lparr>bucket_name = Some ''b'', blob_name = Some ''y''\<rparr>
        None (Some ''x'') None (blob_name \<lparr>bucket_name = Some ''b'', blob_name = Some ''y''\<rparr>)
        \<lparr>objects = [(''b'', ''x'') \<mapsto> [116, 101, 120, 116]], denied = []\<rparr>) = True
   \<and> relocations (snd (snd (move_blob mem_gcs \<lparr>bucket_name = Some ''b'', blob_name = Some ''y''\<rparr>
        None (Some ''x'') None (blob_name \<lparr>bucket_name = Some ''b'', blob_name = Some ''y''\<rparr>)
        \<lparr>objects = [(''b'', ''x'') \<mapsto> [116, 101, 120, 116]], denied = []\<rparr>)))
     = [((''b'', ''x''), (''b'', ''y''))]"
  by (simp add: eval_defs)

end
